theory Spec2Isabelle
  imports Complex_Main
begin

section \<open>Numbers and vectors\<close>

text \<open>
  The camera of \<^verbatim>\<open>src/unnamed/part_001\<close> (class \<^verbatim>\<open>Camera\<close>) computes with JavaScript
  numbers. They are modelled by \<^typ>\<open>real\<close>: exact arithmetic on finite values. A
  division by zero is the one place where the two differ on the camera's paths (HOL gives
  \<open>0\<close>, JavaScript an infinity or NaN); a later section models the pinch handler over
  numbers with non-finite values, where that difference is visible.
\<close>

text \<open>Modelled from the spec: the class \<^verbatim>\<open>Vector\<close> of \<^verbatim>\<open>core/vector\<close> is not among the
  sources; the spec's \<^verbatim>\<open>Point2D\<close> and \<^verbatim>\<open>Vector2D\<close> are 2-component float vectors.\<close>

datatype vector = Vector (vx: real) (vy: real)

text \<open>Modelled from the spec: \<^verbatim>\<open>Vector.add\<close> (absent), the component-wise sum.\<close>

definition add :: "vector \<Rightarrow> vector \<Rightarrow> vector" where
  "add a b = Vector (vx a + vx b) (vy a + vy b)"

text \<open>Modelled from the spec: \<^verbatim>\<open>Vector.sub\<close> (absent), the component-wise difference.\<close>

definition sub :: "vector \<Rightarrow> vector \<Rightarrow> vector" where
  "sub a b = Vector (vx a - vx b) (vy a - vy b)"

text \<open>Modelled from the spec: \<^verbatim>\<open>Vector.addScalars\<close> (absent), adds one scalar per component.\<close>

definition addScalars :: "vector \<Rightarrow> real \<Rightarrow> real \<Rightarrow> vector" where
  "addScalars a x y = Vector (vx a + x) (vy a + y)"

text \<open>Modelled from the spec: \<^verbatim>\<open>Vector.subScalars\<close> (absent), subtracts one scalar per
  component.\<close>

definition subScalars :: "vector \<Rightarrow> real \<Rightarrow> real \<Rightarrow> vector" where
  "subScalars a x y = Vector (vx a - x) (vy a - y)"

text \<open>Modelled from the spec: \<^verbatim>\<open>Vector.multiplyScalar\<close> (absent), scales both components.\<close>

definition multiplyScalar :: "vector \<Rightarrow> real \<Rightarrow> vector" where
  "multiplyScalar a f = Vector (vx a * f) (vy a * f)"

text \<open>Modelled from the spec: \<^verbatim>\<open>Vector.divideScalar\<close> (absent), divides both components.\<close>

definition divideScalar :: "vector \<Rightarrow> real \<Rightarrow> vector" where
  "divideScalar a f = Vector (vx a / f) (vy a / f)"

text \<open>Modelled from the spec: \<^verbatim>\<open>Vector.lengthSquare\<close> (absent), the squared Euclidean norm.\<close>

definition lengthSquare :: "vector \<Rightarrow> real" where
  "lengthSquare a = vx a * vx a + vy a * vy a"

text \<open>Modelled from the spec: \<^verbatim>\<open>Vector.length\<close> (absent), the Euclidean norm.\<close>

definition length_vec :: "vector \<Rightarrow> real" where
  "length_vec a = sqrt (vx a * vx a + vy a * vy a)"

text \<open>Modelled from the spec: \<^verbatim>\<open>Vector.distance\<close> (absent), the Euclidean distance.\<close>

definition distance :: "vector \<Rightarrow> vector \<Rightarrow> real" where
  "distance a b = length_vec (sub a b)"

text \<open>Modelled from the spec: \<^verbatim>\<open>Vector.centerPoint\<close> (absent), the midpoint of the segment
  (the spec's "segment midpoint" of two touch points).\<close>

definition centerPoint :: "vector \<Rightarrow> vector \<Rightarrow> vector" where
  "centerPoint a b = Vector ((vx a + vx b) / 2) ((vy a + vy b) / 2)"

text \<open>Modelled from the spec: \<^verbatim>\<open>Vector.direction\<close> (absent), the vector from the receiver to
  the argument (the spec's "remaining distance" towards \<^verbatim>\<open>desiredCenter\<close>).\<close>

definition direction :: "vector \<Rightarrow> vector \<Rightarrow> vector" where
  "direction a b = Vector (vx b - vx a) (vy b - vy a)"

text \<open>Modelled from the spec: \<^verbatim>\<open>mixVector\<close> of \<^verbatim>\<open>core/vector\<close> (absent), the linear blend
  that moves its first argument towards the second by the given factor ("smoothly blended
  into \<^verbatim>\<open>currentPan\<close>, blend factor 0.06/step").\<close>

definition mixVector :: "vector \<Rightarrow> vector \<Rightarrow> real \<Rightarrow> vector" where
  "mixVector v1 v2 a =
     Vector (vx v1 * (1 - a) + vx v2 * a) (vy v1 * (1 - a) + vy v2 * a)"

text \<open>Modelled from the spec: \<^verbatim>\<open>clamp\<close> of \<^verbatim>\<open>core/utils\<close> (absent): "clamps a zoom value
  against externally supplied min/max bounds".\<close>

definition clamp :: "real \<Rightarrow> real \<Rightarrow> real \<Rightarrow> real" where
  "clamp v minimum maximum = max minimum (min maximum v)"

text \<open>Modelled from the spec: \<^verbatim>\<open>Math_abs\<close>, \<^verbatim>\<open>Math_min\<close> and \<^verbatim>\<open>Math_max\<close> of
  \<^verbatim>\<open>core/builtins\<close> (absent) are taken to be JavaScript's functions of those names; on the
  reals they are \<^const>\<open>abs\<close>, \<^const>\<open>min\<close> and \<^const>\<open>max\<close>.\<close>

text \<open>The constants at the head of the file.\<close>

definition velocitySmoothing :: real where "velocitySmoothing = 0.5"
definition velocityFade :: real where "velocityFade = 0.98"
definition velocityStrength :: real where "velocityStrength = 0.4"
definition velocityMax :: real where "velocityMax = 20"

section \<open>The camera and its collaborators\<close>

text \<open>
  What the camera reads from \<^verbatim>\<open>this.root\<close> and from globals, none of it declared in the
  sources: the render surface, the platform wrapper's zoom bounds and pan strength, the
  build flag \<^verbatim>\<open>G_IS_DEV\<close>, the debug switches and tile size of \<^verbatim>\<open>globalConfig\<close>, and
  whether each of the four movement bindings is held. They are parameters of the model,
  fixed during a run.
\<close>

record gameRoot =
  gameWidth :: real
  gameHeight :: real
  minimumZoom :: real
  maximumZoom :: real
  touchPanStrength :: real
  G_IS_DEV :: bool
  disableZoomLimits :: bool
  testCulling :: bool
  tileSize :: real
  mapMoveUp :: bool
  mapMoveDown :: bool
  mapMoveLeft :: bool
  mapMoveRight :: bool

text \<open>The fields the constructor initialises, in its order. A nullable field is an option.\<close>

record camera =
  zoomLevel :: real
  center :: vector
  currentlyMoving :: bool
  lastMovingPosition :: "vector option"
  cameraUpdateTimeBucket :: real
  didMoveSinceTouchStart :: bool
  currentlyPinching :: bool
  lastPinchPositions :: "(vector \<times> vector) option"
  keyboardForce :: vector
  currentShake :: vector
  currentPan :: vector
  desiredPan :: vector
  desiredCenter :: "vector option"
  desiredZoom :: "real option"
  touchPostMoveVelocity :: vector

text \<open>
  A handler that throws leaves the state it had reached: \<open>Inl\<close> carries the error and
  that state, \<open>Inr\<close> the state after a normal return.
\<close>

datatype jsError = TypeError

type_synonym 'a outcome = "(jsError \<times> 'a) + 'a"

section \<open>Simple getters and setters\<close>

definition setDesiredCenter :: "vector \<Rightarrow> camera \<Rightarrow> camera" where
  "setDesiredCenter c s = s\<lparr>desiredCenter := Some c, currentlyMoving := False\<rparr>"

definition isCurrentlyMovingToDesiredCenter :: "camera \<Rightarrow> bool" where
  "isCurrentlyMovingToDesiredCenter s = (desiredCenter s \<noteq> None)"

definition setPan :: "vector \<Rightarrow> camera \<Rightarrow> camera" where
  "setPan pan s = s\<lparr>desiredPan := pan\<rparr>"

definition findInitialZoom :: "gameRoot \<Rightarrow> real" where
  "findInitialZoom rt =
     (let desiredWorldSpaceWidth = 15 * tileSize rt;
          zoomLevelX = gameWidth rt / desiredWorldSpaceWidth;
          zoomLevelY = gameHeight rt / desiredWorldSpaceWidth
      in min zoomLevelX zoomLevelY)"

definition clearAnimations :: "camera \<Rightarrow> camera" where
  "clearAnimations s =
     s\<lparr>touchPostMoveVelocity := Vector 0 0,
       desiredCenter := None,
       desiredPan := Vector 0 0,
       currentPan := Vector 0 0,
       currentlyPinching := False,
       currentlyMoving := False,
       lastMovingPosition := None,
       didMoveSinceTouchStart := False,
       desiredZoom := None\<rparr>"

definition isCurrentlyInteracting :: "camera \<Rightarrow> bool" where
  "isCurrentlyInteracting s =
     (if currentlyPinching s then True
      else if currentlyMoving s then didMoveSinceTouchStart s
      else if lengthSquare (touchPostMoveVelocity s) > 1 then True
      else False)"

definition viewportWillChange :: "camera \<Rightarrow> bool" where
  "viewportWillChange s =
     (desiredCenter s \<noteq> None \<or> desiredZoom s \<noteq> None \<or> isCurrentlyInteracting s)"

definition cancelAllInteractions :: "camera \<Rightarrow> camera" where
  "cancelAllInteractions s =
     s\<lparr>touchPostMoveVelocity := Vector 0 0,
       desiredCenter := None,
       currentlyMoving := False,
       currentlyPinching := False,
       desiredZoom := None\<rparr>"

definition centerOnMap :: "camera \<Rightarrow> camera" where
  "centerOnMap s = s\<lparr>desiredCenter := Some (Vector 0 0)\<rparr>"

section \<open>Coordinate mapping\<close>

definition screenToWorld :: "gameRoot \<Rightarrow> camera \<Rightarrow> vector \<Rightarrow> vector" where
  "screenToWorld rt s screen =
     (let centerSpace = subScalars screen (gameWidth rt / 2) (gameHeight rt / 2)
      in add (divideScalar centerSpace (zoomLevel s)) (center s))"

definition worldToScreen :: "gameRoot \<Rightarrow> camera \<Rightarrow> vector \<Rightarrow> vector" where
  "worldToScreen rt s world =
     (let screenSpace = multiplyScalar (sub world (center s)) (zoomLevel s)
      in addScalars screenSpace (gameWidth rt / 2) (gameHeight rt / 2))"

section \<open>The single-touch handlers\<close>

text \<open>
  A signal's listeners are outside the camera. What the camera reads of a dispatch is
  whether it returned \<^verbatim>\<open>STOP_PROPAGATION\<close>: the flag \<open>captured\<close> of the two handlers
  with a pre-handler. The listeners are taken not to write the camera.
\<close>

definition combinedSingleTouchStartHandler :: "bool \<Rightarrow> real \<Rightarrow> real \<Rightarrow> camera \<Rightarrow> camera" where
  "combinedSingleTouchStartHandler captured x y s =
     (let pos = Vector x y in
      if captured then s
      else s\<lparr>touchPostMoveVelocity := Vector 0 0,
             currentlyMoving := True,
             lastMovingPosition := Some pos,
             didMoveSinceTouchStart := False\<rparr>)"

text \<open>
  \<^verbatim>\<open>this.lastMovingPosition.sub(pos)\<close> throws on \<^verbatim>\<open>null\<close>, before the handler has written
  anything. \<^verbatim>\<open>if (this.desiredCenter)\<close> tests an object or \<^verbatim>\<open>null\<close>.
\<close>

definition combinedSingleTouchMoveHandler ::
    "gameRoot \<Rightarrow> bool \<Rightarrow> real \<Rightarrow> real \<Rightarrow> camera \<Rightarrow> camera outcome" where
  "combinedSingleTouchMoveHandler rt captured x y s =
     (let pos = Vector x y in
      if captured then Inr s
      else if \<not> currentlyMoving s then Inr s
      else case lastMovingPosition s of
        None \<Rightarrow> Inl (TypeError, s)
      | Some lastPos \<Rightarrow>
          (let delta0 = divideScalar (sub lastPos pos) (zoomLevel s);
               delta = (if G_IS_DEV rt \<and> testCulling rt
                        then multiplyScalar delta0 (zoomLevel s * (- 2)) else delta0);
               s1 = s\<lparr>didMoveSinceTouchStart :=
                         (didMoveSinceTouchStart s \<or> length_vec delta > 0)\<rparr>;
               s2 = s1\<lparr>center := add (center s1) delta\<rparr>;
               s3 = s2\<lparr>touchPostMoveVelocity :=
                         add (multiplyScalar (touchPostMoveVelocity s2) velocitySmoothing)
                             (multiplyScalar delta (1 - velocitySmoothing))\<rparr>;
               s4 = s3\<lparr>lastMovingPosition := Some pos\<rparr>
           in Inr (if desiredCenter s4 \<noteq> None then s4\<lparr>desiredCenter := None\<rparr> else s4)))"

definition combinedSingleTouchStopHandler :: "real \<Rightarrow> real \<Rightarrow> camera \<Rightarrow> camera" where
  "combinedSingleTouchStopHandler x y s =
     (if currentlyMoving s \<or> currentlyPinching s
      then s\<lparr>currentlyMoving := False,
             currentlyPinching := False,
             lastMovingPosition := None,
             lastPinchPositions := None,
             didMoveSinceTouchStart := False\<rparr>
      else s)"

section \<open>Zoom clamp\<close>

text \<open>
  \<^verbatim>\<open>if (this.desiredZoom)\<close> tests a number or \<^verbatim>\<open>null\<close>: it fails on \<^verbatim>\<open>null\<close> and on \<open>0\<close>.
  The finiteness assertions hold of every real and are not modelled.
\<close>

definition clampZoomLevel :: "gameRoot \<Rightarrow> camera \<Rightarrow> camera" where
  "clampZoomLevel rt s =
     (if G_IS_DEV rt \<and> disableZoomLimits rt then s
      else
        (let s1 = s\<lparr>zoomLevel := clamp (zoomLevel s) (minimumZoom rt) (maximumZoom rt)\<rparr>
         in case desiredZoom s1 of
              None \<Rightarrow> s1
            | Some dz \<Rightarrow>
                if dz \<noteq> 0
                then s1\<lparr>desiredZoom := Some (clamp dz (minimumZoom rt) (maximumZoom rt))\<rparr>
                else s1))"

definition transform :: "gameRoot \<Rightarrow> camera \<Rightarrow> camera" where
  "transform rt s = (if G_IS_DEV rt \<and> testCulling rt then s else clampZoomLevel rt s)"

section \<open>The per-channel updates of one physics step\<close>

definition internalUpdateShake :: "real \<Rightarrow> camera \<Rightarrow> camera" where
  "internalUpdateShake dt s = s\<lparr>currentShake := multiplyScalar (currentShake s) 0.92\<rparr>"

definition internalUpdatePanning :: "gameRoot \<Rightarrow> real \<Rightarrow> camera \<Rightarrow> camera" where
  "internalUpdatePanning rt dt s =
     (let baseStrength = velocityStrength * touchPanStrength rt;
          s1 = s\<lparr>touchPostMoveVelocity :=
                   multiplyScalar (touchPostMoveVelocity s) velocityFade\<rparr>
      in if \<not> currentlyMoving s1 \<and> \<not> currentlyPinching s1 then
           (let len = length_vec (touchPostMoveVelocity s1);
                s2 = (if len \<ge> velocityMax
                      then s1\<lparr>touchPostMoveVelocity :=
                               Vector (vx (touchPostMoveVelocity s1) * velocityMax / len)
                                      (vy (touchPostMoveVelocity s1) * velocityMax / len)\<rparr>
                      else s1);
                s3 = s2\<lparr>center :=
                         add (center s2) (multiplyScalar (touchPostMoveVelocity s2) baseStrength)\<rparr>;
                s4 = s3\<lparr>currentPan := mixVector (currentPan s3) (desiredPan s3) 0.06\<rparr>
            in s4\<lparr>center :=
                    add (center s4)
                        (multiplyScalar (currentPan s4) ((0.5 * dt) / zoomLevel s4))\<rparr>)
         else s1)"



definition internalUpdateZooming :: "real \<Rightarrow> camera \<Rightarrow> camera" where
  "internalUpdateZooming dt s =
     (if \<not> currentlyPinching s then
        (case desiredZoom s of
           None \<Rightarrow> s
         | Some dz \<Rightarrow>
             (let diff = zoomLevel s - dz in
              if \<bar>diff\<bar> > 0.0001 then
                (let fade = (if diff > 0 then 0.9 else 0.94)
                 in s\<lparr>zoomLevel := zoomLevel s * fade + dz * (1 - fade)\<rparr>)
              else s\<lparr>desiredZoom := None\<rparr>))
      else s)"

definition internalUpdateCentering :: "real \<Rightarrow> camera \<Rightarrow> camera" where
  "internalUpdateCentering dt s =
     (if \<not> currentlyMoving s then
        (case desiredCenter s of
           None \<Rightarrow> s
         | Some dc \<Rightarrow>
             (let diff = direction (center s) dc;
                  len = length_vec diff;
                  tolerance = 1 / zoomLevel s
              in if len > tolerance then
                   (let movement = multiplyScalar diff (min 1 (dt * 0.008))
                    in s\<lparr>center := Vector (vx (center s) + vx movement)
                                          (vy (center s) + vy movement)\<rparr>)
                 else s\<lparr>desiredCenter := None\<rparr>))
      else s)"

definition internalUpdateKeyboardForce :: "gameRoot \<Rightarrow> real \<Rightarrow> camera \<Rightarrow> camera" where
  "internalUpdateKeyboardForce rt dt s =
     (if \<not> currentlyMoving s \<and> desiredCenter s = None then
        (let limitingDimension = min (gameWidth rt) (gameHeight rt);
             moveAmount = ((limitingDimension / 2048) * dt) / zoomLevel s;
             forceY1 = (if mapMoveUp rt then 0 - 1 else 0);
             forceY = (if mapMoveDown rt then forceY1 + 1 else forceY1);
             forceX1 = (if mapMoveLeft rt then 0 - 1 else 0);
             forceX = (if mapMoveRight rt then forceX1 + 1 else forceX1)
         in s\<lparr>center := Vector (vx (center s) + moveAmount * forceX)
                               (vy (center s) + moveAmount * forceY)\<rparr>)
      else s)"

section \<open>The fixed-step update\<close>

definition physicsStepSizeMs :: real where
  "physicsStepSizeMs = 1000 / (60 * 4)"

text \<open>The body of the \<^verbatim>\<open>while\<close> loop of \<^verbatim>\<open>update\<close>, after the bucket has been reduced:
  the five calls in the order of the source. The argument \<^verbatim>\<open>now\<close> is read by none of
  them and is left out.\<close>

definition updateStep :: "gameRoot \<Rightarrow> camera \<Rightarrow> camera" where
  "updateStep rt s =
     (let s1 = internalUpdatePanning rt physicsStepSizeMs s;
          s2 = internalUpdateZooming physicsStepSizeMs s1;
          s3 = internalUpdateCentering physicsStepSizeMs s2;
          s4 = internalUpdateShake physicsStepSizeMs s3
      in internalUpdateKeyboardForce rt physicsStepSizeMs s4)"

lemma bucket_internalUpdatePanning:
  "cameraUpdateTimeBucket (internalUpdatePanning rt dt s) = cameraUpdateTimeBucket s"
  by (simp add: internalUpdatePanning_def Let_def)

lemma bucket_internalUpdateZooming:
  "cameraUpdateTimeBucket (internalUpdateZooming dt s) = cameraUpdateTimeBucket s"
  by (simp add: internalUpdateZooming_def Let_def split: option.split)

lemma bucket_internalUpdateCentering:
  "cameraUpdateTimeBucket (internalUpdateCentering dt s) = cameraUpdateTimeBucket s"
  by (simp add: internalUpdateCentering_def Let_def split: option.split)

lemma bucket_internalUpdateShake:
  "cameraUpdateTimeBucket (internalUpdateShake dt s) = cameraUpdateTimeBucket s"
  by (simp add: internalUpdateShake_def)

lemma bucket_internalUpdateKeyboardForce:
  "cameraUpdateTimeBucket (internalUpdateKeyboardForce rt dt s) = cameraUpdateTimeBucket s"
  by (simp add: internalUpdateKeyboardForce_def Let_def)

lemma bucket_updateStep:
  "cameraUpdateTimeBucket (updateStep rt s) = cameraUpdateTimeBucket s"
  by (simp add: updateStep_def Let_def bucket_internalUpdatePanning
      bucket_internalUpdateZooming bucket_internalUpdateCentering bucket_internalUpdateShake
      bucket_internalUpdateKeyboardForce)

function updateLoop :: "gameRoot \<Rightarrow> camera \<Rightarrow> camera" where
  "updateLoop rt s =
     (if cameraUpdateTimeBucket s > physicsStepSizeMs
      then updateLoop rt
             (updateStep rt
                (s\<lparr>cameraUpdateTimeBucket := cameraUpdateTimeBucket s - physicsStepSizeMs\<rparr>))
      else s)"
  by pat_completeness auto
termination
proof (relation "measure (\<lambda>(rt, s). nat \<lceil>cameraUpdateTimeBucket s / physicsStepSizeMs\<rceil>)")
  show "wf (measure (\<lambda>(rt, s). nat \<lceil>cameraUpdateTimeBucket s / physicsStepSizeMs\<rceil>))"
    by simp
next
  fix rt :: gameRoot and s :: camera
  assume big: "physicsStepSizeMs < cameraUpdateTimeBucket s"
  have pos: "0 < physicsStepSizeMs" by (simp add: physicsStepSizeMs_def)
  have "(cameraUpdateTimeBucket s - physicsStepSizeMs) / physicsStepSizeMs
          = cameraUpdateTimeBucket s / physicsStepSizeMs - 1"
    using pos by (simp add: diff_divide_distrib)
  moreover have "1 < cameraUpdateTimeBucket s / physicsStepSizeMs"
    using big pos by simp
  ultimately have
    "nat \<lceil>(cameraUpdateTimeBucket s - physicsStepSizeMs) / physicsStepSizeMs\<rceil>
       < nat \<lceil>cameraUpdateTimeBucket s / physicsStepSizeMs\<rceil>"
    by simp
  then show
    "((rt, updateStep rt
             (s\<lparr>cameraUpdateTimeBucket := cameraUpdateTimeBucket s - physicsStepSizeMs\<rparr>)),
      (rt, s))
       \<in> measure (\<lambda>(rt, s). nat \<lceil>cameraUpdateTimeBucket s / physicsStepSizeMs\<rceil>)"
    by (simp add: bucket_updateStep)
qed

declare updateLoop.simps [simp del]

definition update :: "gameRoot \<Rightarrow> real \<Rightarrow> camera \<Rightarrow> camera" where
  "update rt dt s =
     (let dt1 = min dt 33;
          s1 = s\<lparr>cameraUpdateTimeBucket := cameraUpdateTimeBucket s + dt1\<rparr>
      in clampZoomLevel rt (updateLoop rt s1))"

text \<open>A sequence of \<^verbatim>\<open>update\<close> calls, one per frame.\<close>

fun updates :: "gameRoot \<Rightarrow> real list \<Rightarrow> camera \<Rightarrow> camera" where
  "updates rt [] s = s"
| "updates rt (dt # dts) s = updates rt dts (update rt dt s)"








section \<open>Construction, key bindings and the remaining setters\<close>

text \<open>The constructor: the initial zoom, clamped, then every other field, then the clamp
  once more. The assertion of \<^verbatim>\<open>findInitialZoom\<close> is a development check and is not
  modelled.\<close>

definition newCamera :: "gameRoot \<Rightarrow> camera" where
  "newCamera rt =
     clampZoomLevel rt (clampZoomLevel rt
       \<lparr>zoomLevel = findInitialZoom rt,
        center = Vector 0 0,
        currentlyMoving = False,
        lastMovingPosition = None,
        cameraUpdateTimeBucket = 0,
        didMoveSinceTouchStart = False,
        currentlyPinching = False,
        lastPinchPositions = None,
        keyboardForce = Vector 0 0,
        currentShake = Vector 0 0,
        currentPan = Vector 0 0,
        desiredPan = Vector 0 0,
        desiredCenter = None,
        desiredZoom = None,
        touchPostMoveVelocity = Vector 0 0\<rparr>)"

text \<open>The listener the constructor adds to the window in development builds only: the key
  \<^verbatim>\<open>l\<close> sets the zoom level to 3. Without \<^verbatim>\<open>G_IS_DEV\<close> there is no such listener.\<close>

definition devKeydown :: "gameRoot \<Rightarrow> string \<Rightarrow> camera \<Rightarrow> camera" where
  "devKeydown rt key s = (if G_IS_DEV rt \<and> key = ''l'' then s\<lparr>zoomLevel := 3\<rparr> else s)"

text \<open>\<^verbatim>\<open>super.deserialize(data)\<close> belongs to \<^verbatim>\<open>BasicSerializableObject\<close>, outside the
  sources: the error code it returns and the values it leaves in the two fields of the
  schema are inputs here. With an error code the method returns before the clamp.\<close>

definition deserialize :: "gameRoot \<Rightarrow> string option \<Rightarrow> real \<Rightarrow> vector \<Rightarrow> camera \<Rightarrow> camera" where
  "deserialize rt errorCode z c s =
     (let s1 = s\<lparr>zoomLevel := z, center := c\<rparr>
      in case errorCode of Some e \<Rightarrow> s1 | None \<Rightarrow> clampZoomLevel rt s1)"

text \<open>The two draws of \<^verbatim>\<open>Math_random()\<close> are the inputs \<open>r1\<close> and \<open>r2\<close>.\<close>

definition addScreenShake :: "real \<Rightarrow> real \<Rightarrow> real \<Rightarrow> camera \<Rightarrow> camera" where
  "addScreenShake amount r1 r2 s =
     (let currentShakeAmount = length_vec (currentShake s);
          scale = 1 / (1 + 3 * currentShakeAmount);
          s1 = s\<lparr>currentShake := Vector (vx (currentShake s) + 2 * (r1 - 0.5) * scale * amount)
                                         (vy (currentShake s))\<rparr>
      in s1\<lparr>currentShake := Vector (vx (currentShake s1))
                                     (vy (currentShake s1) + 2 * (r2 - 0.5) * scale * amount)\<rparr>)"

text \<open>The local function of \<^verbatim>\<open>bindKeys\<close> and \<^verbatim>\<open>onMouseWheel\<close>; \<^verbatim>\<open>Math.round\<close> rounds
  halves up, as \<^const>\<open>round\<close> does.\<close>

definition roundToPow :: "real \<Rightarrow> real \<Rightarrow> real" where
  "roundToPow v n = 2 powr (real_of_int (round (log 2 v * n)) / n)"

text \<open>The listeners \<^verbatim>\<open>bindKeys\<close> adds to the key bindings.\<close>

datatype keyBinding =
  MapMoveUp | MapMoveDown | MapMoveRight | MapMoveLeft | MapZoomIn | MapZoomOut | CenterMap

fun bindKeys :: "keyBinding \<Rightarrow> camera \<Rightarrow> camera" where
  "bindKeys MapMoveUp s = s\<lparr>keyboardForce := Vector (vx (keyboardForce s)) (- 1)\<rparr>"
| "bindKeys MapMoveDown s = s\<lparr>keyboardForce := Vector (vx (keyboardForce s)) 1\<rparr>"
| "bindKeys MapMoveRight s = s\<lparr>keyboardForce := Vector 1 (vy (keyboardForce s))\<rparr>"
| "bindKeys MapMoveLeft s = s\<lparr>keyboardForce := Vector (- 1) (vy (keyboardForce s))\<rparr>"
| "bindKeys MapZoomIn s = s\<lparr>desiredZoom := Some (roundToPow (zoomLevel s * 1.2) 4)\<rparr>"
| "bindKeys MapZoomOut s = s\<lparr>desiredZoom := Some (roundToPow (zoomLevel s * 0.8) 4)\<rparr>"
| "bindKeys CenterMap s = centerOnMap s"

section \<open>The event handlers\<close>

text \<open>
  Besides the camera the handlers write the global \<^verbatim>\<open>clickDetectorGlobals.lastTouchTime\<close>
  and the logger. \<^verbatim>\<open>performanceNow()\<close> is the input \<open>now\<close> of a handler. Of an event the
  model keeps what the handlers read; \<^verbatim>\<open>preventDefault\<close> has no effect on the camera.
\<close>

record world =
  cam :: camera
  lastTouchTime :: real
  warnings :: "string list"

record point =
  clientX :: real
  clientY :: real

record mouseEvent = point +
  which :: nat

record touchEvent =
  touches :: "point list"
  changedTouches :: "point list"

definition checkPreventDoubleMouse :: "real \<Rightarrow> world \<Rightarrow> bool" where
  "checkPreventDoubleMouse now w = (if now - lastTouchTime w < 1000 then False else True)"

definition onMouseDown :: "real \<Rightarrow> bool \<Rightarrow> mouseEvent \<Rightarrow> world \<Rightarrow> world" where
  "onMouseDown now captured event w =
     (if \<not> checkPreventDoubleMouse now w then w
      else
        (let c1 = (cam w)\<lparr>touchPostMoveVelocity := Vector 0 0\<rparr>
         in if which event = 1
            then w\<lparr>cam := combinedSingleTouchStartHandler captured
                              (clientX event) (clientY event) c1\<rparr>
            else w\<lparr>cam := c1\<rparr>))"

definition onMouseMove :: "gameRoot \<Rightarrow> real \<Rightarrow> bool \<Rightarrow> mouseEvent \<Rightarrow> world \<Rightarrow> world outcome" where
  "onMouseMove rt now captured event w =
     (if \<not> checkPreventDoubleMouse now w then Inr w
      else
        (case (if which event = 1
               then combinedSingleTouchMoveHandler rt captured
                      (clientX event) (clientY event) (cam w)
               else Inr (cam w)) of
           Inl (e, c) \<Rightarrow> Inl (e, w\<lparr>cam := c\<rparr>)
         | Inr c \<Rightarrow> Inr (w\<lparr>cam := clampZoomLevel rt c\<rparr>)))"

definition onMouseUp :: "real \<Rightarrow> mouseEvent \<Rightarrow> world \<Rightarrow> world" where
  "onMouseUp now event w =
     (if \<not> checkPreventDoubleMouse now w then w
      else w\<lparr>cam := combinedSingleTouchStopHandler (clientX event) (clientY event) (cam w)\<rparr>)"

text \<open>The argument is \<^verbatim>\<open>event.deltaY\<close>; \<^verbatim>\<open>Math.sign\<close> is \<^const>\<open>sgn\<close>.\<close>

definition onMouseWheel :: "gameRoot \<Rightarrow> real \<Rightarrow> camera \<Rightarrow> camera" where
  "onMouseWheel rt deltaY s =
     (let delta = sgn deltaY * (- 0.15);
          s1 = s\<lparr>zoomLevel := zoomLevel s * (1 + delta)\<rparr>;
          s2 = clampZoomLevel rt s1
      in s2\<lparr>desiredZoom := Some (roundToPow (zoomLevel s2) 4)\<rparr>)"

definition onTouchStart :: "real \<Rightarrow> bool \<Rightarrow> touchEvent \<Rightarrow> world \<Rightarrow> world" where
  "onTouchStart now captured event w =
     (let w1 = w\<lparr>lastTouchTime := now\<rparr>;
          c1 = (cam w1)\<lparr>touchPostMoveVelocity := Vector 0 0\<rparr>
      in case touches event of
           [touch] \<Rightarrow>
             w1\<lparr>cam := combinedSingleTouchStartHandler captured
                          (clientX touch) (clientY touch) c1\<rparr>
         | [touch1, touch2] \<Rightarrow>
             w1\<lparr>cam := c1\<lparr>currentlyMoving := False,
                            currentlyPinching := True,
                            lastPinchPositions :=
                              Some (Vector (clientX touch1) (clientY touch1),
                                    Vector (clientX touch2) (clientY touch2))\<rparr>\<rparr>
         | _ \<Rightarrow> w1\<lparr>cam := c1\<rparr>)"

text \<open>
  The pinch branch of \<^verbatim>\<open>onTouchMove\<close>, entered with two touches while
  \<^verbatim>\<open>currentlyPinching\<close>. \<^verbatim>\<open>this.lastPinchPositions[0]\<close> throws on \<^verbatim>\<open>null\<close>, before
  anything is written.
\<close>

definition pinchMove :: "gameRoot \<Rightarrow> point \<Rightarrow> point \<Rightarrow> camera \<Rightarrow> camera outcome" where
  "pinchMove rt touch1 touch2 s =
     (let newPinchPositions =
            (Vector (clientX touch1) (clientY touch1), Vector (clientX touch2) (clientY touch2))
      in case lastPinchPositions s of
           None \<Rightarrow> Inl (TypeError, s)
         | Some lastPos \<Rightarrow>
             (let lastDistance = distance (fst lastPos) (snd lastPos);
                  thisDistance = distance (fst newPinchPositions) (snd newPinchPositions);
                  difference = thisDistance / max 0.001 lastDistance;
                  oldCenter = centerPoint (fst lastPos) (snd lastPos);
                  center0 = centerPoint (fst newPinchPositions) (snd newPinchPositions);
                  movement = sub oldCenter center0;
                  s1 = s\<lparr>center := Vector (vx (center s) + vx movement / zoomLevel s)
                                         (vy (center s) + vy movement / zoomLevel s)\<rparr>;
                  center1 = sub center0 (Vector (gameWidth rt / 2) (gameHeight rt / 2));
                  s2 = s1\<lparr>zoomLevel := zoomLevel s1 * difference\<rparr>;
                  correcture = divideScalar (multiplyScalar center1 (difference - 1))
                                 (zoomLevel s2);
                  s3 = s2\<lparr>center := add (center s2) correcture\<rparr>;
                  s4 = s3\<lparr>lastPinchPositions := Some newPinchPositions\<rparr>
              in Inr (case desiredZoom s4 of
                        None \<Rightarrow> s4
                      | Some dz \<Rightarrow> if dz \<noteq> 0 then s4\<lparr>desiredZoom := None\<rparr> else s4)))"

definition onTouchMove :: "gameRoot \<Rightarrow> real \<Rightarrow> bool \<Rightarrow> touchEvent \<Rightarrow> world \<Rightarrow> world outcome" where
  "onTouchMove rt now captured event w =
     (let w1 = w\<lparr>lastTouchTime := now\<rparr>
      in case (case touches event of
                 [touch] \<Rightarrow>
                   combinedSingleTouchMoveHandler rt captured
                     (clientX touch) (clientY touch) (cam w1)
               | [touch1, touch2] \<Rightarrow>
                   if currentlyPinching (cam w1) then pinchMove rt touch1 touch2 (cam w1)
                   else Inr (cam w1)
               | _ \<Rightarrow> Inr (cam w1)) of
           Inl (e, c) \<Rightarrow> Inl (e, w1\<lparr>cam := c\<rparr>)
         | Inr c \<Rightarrow> Inr (w1\<lparr>cam := clampZoomLevel rt c\<rparr>))"

text \<open>After the warning the handler goes on to \<^verbatim>\<open>event.changedTouches[0]\<close>, which is
  \<^verbatim>\<open>undefined\<close> for an empty list, and reading \<^verbatim>\<open>touch.clientX\<close> throws.\<close>

definition onTouchEnd :: "real \<Rightarrow> touchEvent \<Rightarrow> world \<Rightarrow> world outcome" where
  "onTouchEnd now event w =
     (let w1 = w\<lparr>lastTouchTime := now\<rparr>;
          w2 = (if length (changedTouches event) = 0
                then w1\<lparr>warnings := warnings w1 @ [''Touch end without changed touches'']\<rparr>
                else w1)
      in case changedTouches event of
           [] \<Rightarrow> Inl (TypeError, w2)
         | touch # rest \<Rightarrow>
             Inr (w2\<lparr>cam := combinedSingleTouchStopHandler
                               (clientX touch) (clientY touch) (cam w2)\<rparr>))"

section \<open>Runs of camera operations\<close>

text \<open>
  Everything that writes the camera: the frame update, the render transform, the event
  listeners with their inputs, the key binding listeners, the development key listener,
  the setters and \<^verbatim>\<open>deserialize\<close>.
\<close>

datatype cameraOp =
    Update real
  | Transform
  | OnMouseDown real bool mouseEvent
  | OnMouseMove real bool mouseEvent
  | OnMouseUp real mouseEvent
  | OnMouseWheel real
  | OnTouchStart real bool touchEvent
  | OnTouchMove real bool touchEvent
  | OnTouchEnd real touchEvent
  | KeyBinding keyBinding
  | DevKeydown string
  | SetDesiredCenter vector
  | SetPan vector
  | AddScreenShake real real real
  | ClearAnimations
  | CancelAllInteractions
  | CenterOnMap
  | Deserialize "string option" real vector

fun applyOp :: "gameRoot \<Rightarrow> cameraOp \<Rightarrow> world \<Rightarrow> world outcome" where
  "applyOp rt (Update dt) w = Inr (w\<lparr>cam := update rt dt (cam w)\<rparr>)"
| "applyOp rt Transform w = Inr (w\<lparr>cam := transform rt (cam w)\<rparr>)"
| "applyOp rt (OnMouseDown now captured event) w = Inr (onMouseDown now captured event w)"
| "applyOp rt (OnMouseMove now captured event) w = onMouseMove rt now captured event w"
| "applyOp rt (OnMouseUp now event) w = Inr (onMouseUp now event w)"
| "applyOp rt (OnMouseWheel deltaY) w = Inr (w\<lparr>cam := onMouseWheel rt deltaY (cam w)\<rparr>)"
| "applyOp rt (OnTouchStart now captured event) w = Inr (onTouchStart now captured event w)"
| "applyOp rt (OnTouchMove now captured event) w = onTouchMove rt now captured event w"
| "applyOp rt (OnTouchEnd now event) w = onTouchEnd now event w"
| "applyOp rt (KeyBinding k) w = Inr (w\<lparr>cam := bindKeys k (cam w)\<rparr>)"
| "applyOp rt (DevKeydown key) w = Inr (w\<lparr>cam := devKeydown rt key (cam w)\<rparr>)"
| "applyOp rt (SetDesiredCenter c) w = Inr (w\<lparr>cam := setDesiredCenter c (cam w)\<rparr>)"
| "applyOp rt (SetPan pan) w = Inr (w\<lparr>cam := setPan pan (cam w)\<rparr>)"
| "applyOp rt (AddScreenShake amount r1 r2) w =
     Inr (w\<lparr>cam := addScreenShake amount r1 r2 (cam w)\<rparr>)"
| "applyOp rt ClearAnimations w = Inr (w\<lparr>cam := clearAnimations (cam w)\<rparr>)"
| "applyOp rt CancelAllInteractions w = Inr (w\<lparr>cam := cancelAllInteractions (cam w)\<rparr>)"
| "applyOp rt CenterOnMap w = Inr (w\<lparr>cam := centerOnMap (cam w)\<rparr>)"
| "applyOp rt (Deserialize errorCode z c) w =
     Inr (w\<lparr>cam := deserialize rt errorCode z c (cam w)\<rparr>)"

text \<open>The state an operation leaves, whether it returned or threw: an exception in a
  listener ends that listener, and the next event finds the state as it was left.\<close>

definition stateAfter :: "'a outcome \<Rightarrow> 'a" where
  "stateAfter r = (case r of Inl (e, w) \<Rightarrow> w | Inr w \<Rightarrow> w)"

fun run :: "gameRoot \<Rightarrow> cameraOp list \<Rightarrow> world \<Rightarrow> world" where
  "run rt [] w = w"
| "run rt (operation # rest) w = run rt rest (stateAfter (applyOp rt operation w))"

text \<open>The zoom limits are enabled unless a development build switches them off.\<close>

definition zoomLimitsEnabled :: "gameRoot \<Rightarrow> bool" where
  "zoomLimitsEnabled rt = (\<not> (G_IS_DEV rt \<and> disableZoomLimits rt))"

definition zoomWithinLimits :: "gameRoot \<Rightarrow> camera \<Rightarrow> bool" where
  "zoomWithinLimits rt s = (minimumZoom rt \<le> zoomLevel s \<and> zoomLevel s \<le> maximumZoom rt)"

text \<open>The two operations that write \<^verbatim>\<open>zoomLevel\<close> and return without a clamp: the
  development key listener on \<^verbatim>\<open>l\<close>, and a \<^verbatim>\<open>deserialize\<close> whose base-class call reports
  an error.\<close>

fun writesZoomUnclamped :: "gameRoot \<Rightarrow> cameraOp \<Rightarrow> bool" where
  "writesZoomUnclamped rt (DevKeydown key) = (G_IS_DEV rt \<and> key = ''l'')"
| "writesZoomUnclamped rt (Deserialize (Some e) z c) = True"
| "writesZoomUnclamped rt operation = False"

section \<open>The pinch handler over numbers with non-finite values\<close>

text \<open>
  To say that a zoom level is finite, numbers need values that are not: a JavaScript number
  is here a real, an infinity or NaN, with the arithmetic of IEEE 754 on them and exact
  arithmetic on the reals. Rounding, overflow and the sign of zero are left out (a zero is
  a positive zero), so the sign of an infinity that comes from a division by zero can
  differ from JavaScript's; whether a value is finite does not depend on it.
\<close>

datatype jsnum = Num real | PosInfinity | NegInfinity | NaN


fun negative :: "jsnum \<Rightarrow> bool" where
  "negative (Num a) = (a < 0)"
| "negative NegInfinity = True"
| "negative PosInfinity = False"
| "negative NaN = False"

definition signedInfinity :: "bool \<Rightarrow> jsnum" where
  "signedInfinity neg = (if neg then NegInfinity else PosInfinity)"

fun jsNeg :: "jsnum \<Rightarrow> jsnum" where
  "jsNeg (Num a) = Num (- a)"
| "jsNeg PosInfinity = NegInfinity"
| "jsNeg NegInfinity = PosInfinity"
| "jsNeg NaN = NaN"

fun jsAdd :: "jsnum \<Rightarrow> jsnum \<Rightarrow> jsnum" where
  "jsAdd (Num a) (Num b) = Num (a + b)"
| "jsAdd NaN b = NaN"
| "jsAdd a NaN = NaN"
| "jsAdd PosInfinity NegInfinity = NaN"
| "jsAdd NegInfinity PosInfinity = NaN"
| "jsAdd PosInfinity b = PosInfinity"
| "jsAdd a PosInfinity = PosInfinity"
| "jsAdd NegInfinity b = NegInfinity"
| "jsAdd a NegInfinity = NegInfinity"

definition jsSub :: "jsnum \<Rightarrow> jsnum \<Rightarrow> jsnum" where
  "jsSub a b = jsAdd a (jsNeg b)"

definition jsMul :: "jsnum \<Rightarrow> jsnum \<Rightarrow> jsnum" where
  "jsMul a b =
     (case (a, b) of
        (Num x, Num y) \<Rightarrow> Num (x * y)
      | _ \<Rightarrow> if a = NaN \<or> b = NaN \<or> a = Num 0 \<or> b = Num 0 then NaN
             else signedInfinity (negative a \<noteq> negative b))"

definition jsDiv :: "jsnum \<Rightarrow> jsnum \<Rightarrow> jsnum" where
  "jsDiv a b =
     (case (a, b) of
        (Num x, Num y) \<Rightarrow>
          if y \<noteq> 0 then Num (x / y)
          else if x = 0 then NaN
          else signedInfinity (x < 0)
      | (Num x, _) \<Rightarrow> if b = NaN then NaN else Num 0
      | (_, Num y) \<Rightarrow> if a = NaN then NaN else signedInfinity (negative a \<noteq> (y < 0))
      | _ \<Rightarrow> NaN)"

fun jsLess :: "jsnum \<Rightarrow> jsnum \<Rightarrow> bool" where
  "jsLess (Num a) (Num b) = (a < b)"
| "jsLess NaN b = False"
| "jsLess a NaN = False"
| "jsLess NegInfinity NegInfinity = False"
| "jsLess NegInfinity b = True"
| "jsLess a NegInfinity = False"
| "jsLess PosInfinity b = False"
| "jsLess a PosInfinity = True"

text \<open>Modelled from the spec: \<^verbatim>\<open>Math_max\<close> of \<^verbatim>\<open>core/builtins\<close> (absent), taken to be
  JavaScript's \<^verbatim>\<open>Math.max\<close>: a NaN argument gives NaN.\<close>

definition Math_max :: "jsnum \<Rightarrow> jsnum \<Rightarrow> jsnum" where
  "Math_max a b = (if a = NaN \<or> b = NaN then NaN else if jsLess a b then b else a)"

text \<open>Modelled from the spec: \<^verbatim>\<open>Math_min\<close> of \<^verbatim>\<open>core/builtins\<close> (absent), taken to be
  JavaScript's \<^verbatim>\<open>Math.min\<close>: a NaN argument gives NaN.\<close>

definition Math_min :: "jsnum \<Rightarrow> jsnum \<Rightarrow> jsnum" where
  "Math_min a b = (if a = NaN \<or> b = NaN then NaN else if jsLess b a then b else a)"

text \<open>JavaScript's \<^verbatim>\<open>Math.hypot\<close>, the Euclidean norm: an infinite argument gives infinity,
  otherwise a NaN argument gives NaN.\<close>

definition Math_hypot :: "jsnum \<Rightarrow> jsnum \<Rightarrow> jsnum" where
  "Math_hypot a b =
     (case (a, b) of
        (Num x, Num y) \<Rightarrow> Num (sqrt (x * x + y * y))
      | _ \<Rightarrow> if a = PosInfinity \<or> a = NegInfinity \<or> b = PosInfinity \<or> b = NegInfinity
             then PosInfinity else NaN)"

text \<open>What \<^verbatim>\<open>if (v)\<close> makes of a number: zero and NaN are false.\<close>

fun truthy :: "jsnum \<Rightarrow> bool" where
  "truthy (Num a) = (a \<noteq> 0)"
| "truthy NaN = False"
| "truthy PosInfinity = True"
| "truthy NegInfinity = True"

text \<open>Modelled from the spec: \<^verbatim>\<open>clamp\<close> of \<^verbatim>\<open>core/utils\<close> (absent), as for the reals:
  "clamps a zoom value against externally supplied min/max bounds".\<close>

definition clampJS :: "jsnum \<Rightarrow> jsnum \<Rightarrow> jsnum \<Rightarrow> jsnum" where
  "clampJS v minimum maximum = Math_max minimum (Math_min maximum v)"

text \<open>Modelled from the spec: the class \<^verbatim>\<open>Vector\<close> of \<^verbatim>\<open>core/vector\<close> (absent), as for
  the reals, with components that may be non-finite.\<close>

datatype jsVector = JsVector (jx: jsnum) (jy: jsnum)

text \<open>A vector of finite components among these.\<close>

definition toJS :: "vector \<Rightarrow> jsVector" where
  "toJS a = JsVector (Num (vx a)) (Num (vy a))"

text \<open>Modelled from the spec: \<^verbatim>\<open>Vector.add\<close> (absent), the component-wise sum.\<close>

definition addJS :: "jsVector \<Rightarrow> jsVector \<Rightarrow> jsVector" where
  "addJS a b = JsVector (jsAdd (jx a) (jx b)) (jsAdd (jy a) (jy b))"

text \<open>Modelled from the spec: \<^verbatim>\<open>Vector.sub\<close> (absent), the component-wise difference.\<close>

definition subJS :: "jsVector \<Rightarrow> jsVector \<Rightarrow> jsVector" where
  "subJS a b = JsVector (jsSub (jx a) (jx b)) (jsSub (jy a) (jy b))"

text \<open>Modelled from the spec: \<^verbatim>\<open>Vector.multiplyScalar\<close> (absent), scales both components.\<close>

definition multiplyScalarJS :: "jsVector \<Rightarrow> jsnum \<Rightarrow> jsVector" where
  "multiplyScalarJS a f = JsVector (jsMul (jx a) f) (jsMul (jy a) f)"

text \<open>Modelled from the spec: \<^verbatim>\<open>Vector.divideScalar\<close> (absent), divides both components.\<close>

definition divideScalarJS :: "jsVector \<Rightarrow> jsnum \<Rightarrow> jsVector" where
  "divideScalarJS a f = JsVector (jsDiv (jx a) f) (jsDiv (jy a) f)"

text \<open>Modelled from the spec: \<^verbatim>\<open>Vector.distance\<close> (absent), the Euclidean distance.\<close>

definition distanceJS :: "jsVector \<Rightarrow> jsVector \<Rightarrow> jsnum" where
  "distanceJS a b = Math_hypot (jsSub (jx a) (jx b)) (jsSub (jy a) (jy b))"

text \<open>Modelled from the spec: \<^verbatim>\<open>Vector.centerPoint\<close> (absent), the midpoint of the segment.\<close>

definition centerPointJS :: "jsVector \<Rightarrow> jsVector \<Rightarrow> jsVector" where
  "centerPointJS a b =
     JsVector (jsDiv (jsAdd (jx a) (jx b)) (Num 2)) (jsDiv (jsAdd (jy a) (jy b)) (Num 2))"

text \<open>
  The fields the two-touch branch of \<^verbatim>\<open>onTouchMove\<close> and \<^verbatim>\<open>clampZoomLevel\<close> read or
  write. \<^verbatim>\<open>lastPinchPositions\<close> only ever holds vectors made of touch coordinates, which
  like the surface size and the zoom bounds are finite numbers.
\<close>

record pinchCamera =
  zoomLevelJS :: jsnum
  centerJS :: jsVector
  currentlyPinchingJS :: bool
  lastPinchPositionsJS :: "(vector \<times> vector) option"
  desiredZoomJS :: "jsnum option"

definition pinchMoveJS :: "gameRoot \<Rightarrow> point \<Rightarrow> point \<Rightarrow> pinchCamera \<Rightarrow> pinchCamera outcome" where
  "pinchMoveJS rt touch1 touch2 s =
     (let newPinchPositions =
            (Vector (clientX touch1) (clientY touch1), Vector (clientX touch2) (clientY touch2))
      in case lastPinchPositionsJS s of
           None \<Rightarrow> Inl (TypeError, s)
         | Some lastPos \<Rightarrow>
             (let lastDistance = distanceJS (toJS (fst lastPos)) (toJS (snd lastPos));
                  thisDistance = distanceJS (toJS (fst newPinchPositions))
                                   (toJS (snd newPinchPositions));
                  difference = jsDiv thisDistance (Math_max (Num 0.001) lastDistance);
                  oldCenter = centerPointJS (toJS (fst lastPos)) (toJS (snd lastPos));
                  center0 = centerPointJS (toJS (fst newPinchPositions))
                              (toJS (snd newPinchPositions));
                  movement = subJS oldCenter center0;
                  s1 = s\<lparr>centerJS :=
                          JsVector (jsAdd (jx (centerJS s)) (jsDiv (jx movement) (zoomLevelJS s)))
                                   (jsAdd (jy (centerJS s)) (jsDiv (jy movement) (zoomLevelJS s)))\<rparr>;
                  center1 = subJS center0
                              (JsVector (jsDiv (Num (gameWidth rt)) (Num 2))
                                        (jsDiv (Num (gameHeight rt)) (Num 2)));
                  s2 = s1\<lparr>zoomLevelJS := jsMul (zoomLevelJS s1) difference\<rparr>;
                  correcture = divideScalarJS
                                 (multiplyScalarJS center1 (jsSub difference (Num 1)))
                                 (zoomLevelJS s2);
                  s3 = s2\<lparr>centerJS := addJS (centerJS s2) correcture\<rparr>;
                  s4 = s3\<lparr>lastPinchPositionsJS := Some newPinchPositions\<rparr>
              in Inr (case desiredZoomJS s4 of
                        None \<Rightarrow> s4
                      | Some dz \<Rightarrow> if truthy dz then s4\<lparr>desiredZoomJS := None\<rparr> else s4)))"

text \<open>
  The zoom ratio of the two-touch branch of \<^verbatim>\<open>onTouchMove\<close>, from the last and the new
  pinch positions: \<^verbatim>\<open>thisDistance / Math_max(0.001, lastDistance)\<close>.
\<close>

definition pinchDifferenceJS :: "vector \<times> vector \<Rightarrow> vector \<times> vector \<Rightarrow> jsnum" where
  "pinchDifferenceJS lastPos newPinchPositions =
     (let lastDistance = distanceJS (toJS (fst lastPos)) (toJS (snd lastPos));
          thisDistance = distanceJS (toJS (fst newPinchPositions))
                           (toJS (snd newPinchPositions))
      in jsDiv thisDistance (Math_max (Num 0.001) lastDistance))"

definition clampZoomLevelJS :: "gameRoot \<Rightarrow> pinchCamera \<Rightarrow> pinchCamera" where
  "clampZoomLevelJS rt s =
     (if G_IS_DEV rt \<and> disableZoomLimits rt then s
      else
        (let s1 = s\<lparr>zoomLevelJS :=
                      clampJS (zoomLevelJS s) (Num (minimumZoom rt)) (Num (maximumZoom rt))\<rparr>
         in case desiredZoomJS s1 of
              None \<Rightarrow> s1
            | Some dz \<Rightarrow>
                if truthy dz
                then s1\<lparr>desiredZoomJS :=
                          Some (clampJS dz (Num (minimumZoom rt)) (Num (maximumZoom rt)))\<rparr>
                else s1))"

text \<open>\<^verbatim>\<open>onTouchMove\<close> for an event with two touches: the pinch branch, then the clamp.\<close>

definition onTouchMoveJS :: "gameRoot \<Rightarrow> point \<Rightarrow> point \<Rightarrow> pinchCamera \<Rightarrow> pinchCamera outcome" where
  "onTouchMoveJS rt touch1 touch2 s =
     (case (if currentlyPinchingJS s then pinchMoveJS rt touch1 touch2 s else Inr s) of
        Inl (e, c) \<Rightarrow> Inl (e, c)
      | Inr c \<Rightarrow> Inr (clampZoomLevelJS rt c))"

text \<open>A camera of the first embedding, seen in the second.\<close>

definition toPinchCamera :: "camera \<Rightarrow> pinchCamera" where
  "toPinchCamera s =
     \<lparr>zoomLevelJS = Num (zoomLevel s),
      centerJS = toJS (center s),
      currentlyPinchingJS = currentlyPinching s,
      lastPinchPositionsJS = lastPinchPositions s,
      desiredZoomJS = map_option Num (desiredZoom s)\<rparr>"

section \<open>Concrete inputs\<close>

text \<open>An 800 by 600 surface with zoom bounds \<open>[1/2, 2]\<close>, as a release and as a
  development build, and the camera the constructor makes for it.\<close>

definition exampleRoot :: gameRoot where
  "exampleRoot =
     \<lparr>gameWidth = 800, gameHeight = 600, minimumZoom = 1/2, maximumZoom = 2,
      touchPanStrength = 1, G_IS_DEV = False, disableZoomLimits = False,
      testCulling = False, tileSize = 32, mapMoveUp = False, mapMoveDown = False,
      mapMoveLeft = False, mapMoveRight = False\<rparr>"

definition exampleDevRoot :: gameRoot where
  "exampleDevRoot = exampleRoot\<lparr>G_IS_DEV := True\<rparr>"

definition exampleCamera :: camera where
  "exampleCamera =
     \<lparr>zoomLevel = 5/4,
      center = Vector 0 0,
      currentlyMoving = False,
      lastMovingPosition = None,
      cameraUpdateTimeBucket = 0,
      didMoveSinceTouchStart = False,
      currentlyPinching = False,
      lastPinchPositions = None,
      keyboardForce = Vector 0 0,
      currentShake = Vector 0 0,
      currentPan = Vector 0 0,
      desiredPan = Vector 0 0,
      desiredCenter = None,
      desiredZoom = None,
      touchPostMoveVelocity = Vector 0 0\<rparr>"

definition exampleWorld :: world where
  "exampleWorld = \<lparr>cam = exampleCamera, lastTouchTime = 0, warnings = []\<rparr>"

text \<open>A camera in the middle of everything: both animations active, a pinch under way
  and inertial velocity left.\<close>

definition exampleBusyCamera :: camera where
  "exampleBusyCamera =
     exampleCamera\<lparr>desiredCenter := Some (Vector 100 0), desiredZoom := Some 1,
       currentlyPinching := True, touchPostMoveVelocity := Vector 3 4\<rparr>"

text \<open>A development build with the zoom limits switched off.\<close>

definition exampleUnlimitedRoot :: gameRoot where
  "exampleUnlimitedRoot = exampleRoot\<lparr>G_IS_DEV := True, disableZoomLimits := True\<rparr>"

text \<open>The constructor's camera (zoom \<open>5/4\<close>) with a request to zoom to 3, above the
  maximum of 2.\<close>

definition exampleZoomingCamera :: camera where
  "exampleZoomingCamera = exampleCamera\<lparr>desiredZoom := Some 3\<rparr>"



text \<open>A camera at zoom \<open>0.52\<close> zooming out to \<open>0.3\<close> while it moves to a center 2 units
  away: the distance is outside the centering tolerance \<open>1 / 0.52\<close> and inside
  \<open>1 / 0.498\<close>, the tolerance after one zoom step.\<close>

definition exampleZoomCenterCamera :: camera where
  "exampleZoomCenterCamera =
     exampleCamera\<lparr>zoomLevel := 52/100, desiredZoom := Some (3/10),
       desiredCenter := Some (Vector 2 0)\<rparr>"




lemma newCamera_exampleRoot: "newCamera exampleRoot = exampleCamera"
  by (simp add: newCamera_def exampleRoot_def exampleCamera_def clampZoomLevel_def
      findInitialZoom_def clamp_def Let_def)

section \<open>Properties of the getters, the mapping and the drag handlers\<close>

text \<open>
  C9. Right after \<^verbatim>\<open>cancelAllInteractions()\<close> the viewport will not change: both desire
  fields are null, neither gesture flag is set, the inertial velocity is the zero vector,
  so \<^verbatim>\<open>isCurrentlyInteracting()\<close> and \<^verbatim>\<open>viewportWillChange()\<close> both return false.
\<close>

theorem cancelAllInteractions_quiet:
  "desiredCenter (cancelAllInteractions s) = None \<and>
   desiredZoom (cancelAllInteractions s) = None \<and>
   currentlyMoving (cancelAllInteractions s) = False \<and>
   currentlyPinching (cancelAllInteractions s) = False \<and>
   touchPostMoveVelocity (cancelAllInteractions s) = Vector 0 0 \<and>
   isCurrentlyInteracting (cancelAllInteractions s) = False \<and>
   viewportWillChange (cancelAllInteractions s) = False"
  by (simp add: cancelAllInteractions_def viewportWillChange_def isCurrentlyInteracting_def
      lengthSquare_def)

theorem cancelAllInteractions_quiet_witness:
  "viewportWillChange exampleBusyCamera = True \<and>
   viewportWillChange (cancelAllInteractions exampleBusyCamera) = False \<and>
   isCurrentlyInteracting (cancelAllInteractions exampleBusyCamera) = False"
  using cancelAllInteractions_quiet [of exampleBusyCamera]
  by (simp add: viewportWillChange_def exampleBusyCamera_def exampleCamera_def)

text \<open>
  C10. While \<^verbatim>\<open>currentlyMoving\<close> is false a drag-move sample returns normally with the
  camera exactly as it was, whatever the sample position and whether or not a move
  pre-handler captured it.
\<close>

theorem move_sample_ignored_when_not_moving:
  "\<not> currentlyMoving s \<Longrightarrow> combinedSingleTouchMoveHandler rt captured x y s = Inr s"
  by (simp add: combinedSingleTouchMoveHandler_def Let_def)

theorem move_sample_ignored_when_not_moving_witness:
  "\<not> currentlyMoving exampleBusyCamera \<and>
   combinedSingleTouchMoveHandler exampleRoot False 10 20 exampleBusyCamera
     = Inr exampleBusyCamera"
proof -
  have idle: "\<not> currentlyMoving exampleBusyCamera"
    by (simp add: exampleBusyCamera_def exampleCamera_def)
  from idle move_sample_ignored_when_not_moving [OF idle, of exampleRoot False 10 20]
  show ?thesis by simp
qed

text \<open>
  C6. With a nonzero zoom level, mapping a screen point to the world and back gives the
  point again (same camera state for both calls, exact arithmetic).
\<close>

theorem worldToScreen_screenToWorld:
  "zoomLevel s \<noteq> 0 \<Longrightarrow> worldToScreen rt s (screenToWorld rt s p) = p"
  by (cases p)
    (simp add: worldToScreen_def screenToWorld_def subScalars_def addScalars_def
      divideScalar_def multiplyScalar_def add_def sub_def)

theorem worldToScreen_screenToWorld_witness:
  "zoomLevel exampleCamera \<noteq> 0 \<and>
   worldToScreen exampleRoot exampleCamera
     (screenToWorld exampleRoot exampleCamera (Vector 100 300)) = Vector 100 300"
proof -
  have nonzero: "zoomLevel exampleCamera \<noteq> 0"
    by (simp add: exampleCamera_def)
  from nonzero worldToScreen_screenToWorld [OF nonzero, of exampleRoot "Vector 100 300"]
  show ?thesis by simp
qed

section \<open>The time bucket\<close>

lemma bucket_clampZoomLevel:
  "cameraUpdateTimeBucket (clampZoomLevel rt s) = cameraUpdateTimeBucket s"
  by (simp add: clampZoomLevel_def Let_def split: option.split)

lemma bucket_updateLoop_le:
  "cameraUpdateTimeBucket (updateLoop rt s) \<le> physicsStepSizeMs"
proof (induction rt s rule: updateLoop.induct)
  case (1 rt s)
  show ?case
  proof (cases "cameraUpdateTimeBucket s > physicsStepSizeMs")
    case True
    with "1.IH" show ?thesis by (subst updateLoop.simps) simp
  next
    case False
    then show ?thesis by (subst updateLoop.simps) simp
  qed
qed

text \<open>
  C3, as the code has it. After \<^verbatim>\<open>update(dt)\<close> returns the time bucket is at most the
  physics step size, for every \<open>dt\<close> and every earlier value of the bucket: the loop goes
  on while the bucket is strictly larger than a step, so it can stop with the bucket equal
  to one.
\<close>

theorem bucket_after_update_le:
  "cameraUpdateTimeBucket (update rt dt s) \<le> physicsStepSizeMs"
  by (simp add: update_def Let_def bucket_clampZoomLevel bucket_updateLoop_le)

text \<open>
  C3 as stated fails: from an empty bucket, an update by exactly one step size
  (\<open>25/6\<close> ms, non-negative and under the 33 ms clamp) does not enter the loop and leaves
  the bucket equal to the step size, not strictly below it.
\<close>

theorem bucket_after_update_not_less:
  "(0::real) \<le> 25/6 \<and> (25/6::real) \<le> 33 \<and>
   cameraUpdateTimeBucket exampleCamera < physicsStepSizeMs \<and>
   \<not> cameraUpdateTimeBucket (update exampleRoot (25/6) exampleCamera) < physicsStepSizeMs"
  by (simp add: update_def Let_def bucket_clampZoomLevel exampleCamera_def
      physicsStepSizeMs_def updateLoop.simps)

section \<open>Touch end without changed touches\<close>

text \<open>
  C2 at its failing input. With an empty \<^verbatim>\<open>changedTouches\<close> list, in every state,
  \<^verbatim>\<open>onTouchEnd\<close> records the time, logs the warning and then throws a \<^verbatim>\<open>TypeError\<close>; it
  does not return. The camera itself is as before.
\<close>

theorem onTouchEnd_without_changed_touches_throws:
  "onTouchEnd now \<lparr>touches = ts, changedTouches = []\<rparr> w =
     Inl (TypeError,
          w\<lparr>lastTouchTime := now,
            warnings := warnings w @ [''Touch end without changed touches'']\<rparr>)"
  by (simp add: onTouchEnd_def Let_def)

section \<open>Drag start and the centering animation\<close>

text \<open>
  C5 as stated fails: a drag start that no pre-handler captured leaves an active
  centering animation in place.
\<close>

theorem drag_start_keeps_desiredCenter:
  "desiredCenter exampleBusyCamera \<noteq> None \<and>
   desiredCenter (combinedSingleTouchStartHandler False 10 20 exampleBusyCamera)
     = Some (Vector 100 0)"
  by (simp add: combinedSingleTouchStartHandler_def exampleBusyCamera_def exampleCamera_def)

text \<open>
  C5, as the code has it. A drag start that no pre-handler captured leaves
  \<^verbatim>\<open>desiredCenter\<close> as it is and sets \<^verbatim>\<open>currentlyMoving\<close>, under which the centering step
  of the update does nothing. The first drag-move sample after it that no pre-handler
  captured returns normally with \<^verbatim>\<open>desiredCenter\<close> null.
\<close>

theorem drag_move_cancels_desiredCenter:
  "desiredCenter (combinedSingleTouchStartHandler False x y s) = desiredCenter s \<and>
   currentlyMoving (combinedSingleTouchStartHandler False x y s) \<and>
   internalUpdateCentering dt (combinedSingleTouchStartHandler False x y s)
     = combinedSingleTouchStartHandler False x y s \<and>
   (\<exists>s2. combinedSingleTouchMoveHandler rt False x2 y2
            (combinedSingleTouchStartHandler False x y s) = Inr s2 \<and>
         desiredCenter s2 = None)"
  by (simp add: combinedSingleTouchStartHandler_def combinedSingleTouchMoveHandler_def
      internalUpdateCentering_def Let_def)

theorem drag_move_cancels_desiredCenter_witness:
  "desiredCenter (combinedSingleTouchStartHandler False 10 20 exampleBusyCamera)
     = Some (Vector 100 0) \<and>
   (\<exists>s2. combinedSingleTouchMoveHandler exampleRoot False 30 40
            (combinedSingleTouchStartHandler False 10 20 exampleBusyCamera) = Inr s2 \<and>
         desiredCenter s2 = None)"
  using drag_move_cancels_desiredCenter [of 10 20 exampleBusyCamera 1 exampleRoot 30 40]
  by (simp add: exampleBusyCamera_def exampleCamera_def)

section \<open>The order of the channel updates in one step\<close>





















section \<open>The zoom level stays within the limits\<close>

lemma clamp_within:
  "lo \<le> hi \<Longrightarrow> lo \<le> clamp v lo hi \<and> clamp v lo hi \<le> hi"
  by (simp add: clamp_def)

lemma clamp_fixed:
  "lo \<le> v \<Longrightarrow> v \<le> hi \<Longrightarrow> clamp v lo hi = v"
  by (simp add: clamp_def)

lemma zoomLevel_clampZoomLevel:
  "zoomLimitsEnabled rt \<Longrightarrow>
   zoomLevel (clampZoomLevel rt s) = clamp (zoomLevel s) (minimumZoom rt) (maximumZoom rt)"
  by (auto simp add: clampZoomLevel_def zoomLimitsEnabled_def Let_def split: option.split)

lemma within_clampZoomLevel:
  "zoomLimitsEnabled rt \<Longrightarrow> minimumZoom rt \<le> maximumZoom rt \<Longrightarrow>
   zoomWithinLimits rt (clampZoomLevel rt s)"
  by (simp add: zoomWithinLimits_def zoomLevel_clampZoomLevel clamp_within)

lemma within_update:
  "zoomLimitsEnabled rt \<Longrightarrow> minimumZoom rt \<le> maximumZoom rt \<Longrightarrow>
   zoomWithinLimits rt (update rt dt s)"
  by (simp add: update_def Let_def within_clampZoomLevel)

lemma within_updates:
  "zoomLimitsEnabled rt \<Longrightarrow> minimumZoom rt \<le> maximumZoom rt \<Longrightarrow>
   zoomWithinLimits rt s \<Longrightarrow> zoomWithinLimits rt (updates rt dts s)"
  by (induction dts arbitrary: s) (simp_all add: within_update)

lemma within_newCamera:
  "zoomLimitsEnabled rt \<Longrightarrow> minimumZoom rt \<le> maximumZoom rt \<Longrightarrow>
   zoomWithinLimits rt (newCamera rt)"
  by (simp add: newCamera_def within_clampZoomLevel)

lemma within_transform:
  "zoomLimitsEnabled rt \<Longrightarrow> minimumZoom rt \<le> maximumZoom rt \<Longrightarrow>
   zoomWithinLimits rt s \<Longrightarrow> zoomWithinLimits rt (transform rt s)"
  by (simp add: transform_def within_clampZoomLevel)

lemma zoomLevel_startHandler:
  "zoomLevel (combinedSingleTouchStartHandler captured x y s) = zoomLevel s"
  by (simp add: combinedSingleTouchStartHandler_def Let_def)

lemma zoomLevel_stopHandler:
  "zoomLevel (combinedSingleTouchStopHandler x y s) = zoomLevel s"
  by (simp add: combinedSingleTouchStopHandler_def)

lemma moveHandler_throw_state:
  "combinedSingleTouchMoveHandler rt captured x y s = Inl (e, s') \<Longrightarrow> s' = s"
  by (auto simp add: combinedSingleTouchMoveHandler_def Let_def
      split: if_splits option.splits)

lemma pinchMove_throw_state:
  "pinchMove rt touch1 touch2 s = Inl (e, s') \<Longrightarrow> s' = s"
  by (auto simp add: pinchMove_def Let_def split: option.splits)

lemma within_onMouseDown:
  "zoomWithinLimits rt (cam w) \<Longrightarrow> zoomWithinLimits rt (cam (onMouseDown now captured event w))"
  by (simp add: onMouseDown_def Let_def zoomWithinLimits_def zoomLevel_startHandler)

lemma within_onMouseUp:
  "zoomWithinLimits rt (cam w) \<Longrightarrow> zoomWithinLimits rt (cam (onMouseUp now event w))"
  by (simp add: onMouseUp_def zoomWithinLimits_def zoomLevel_stopHandler)

lemma within_onMouseMove:
  assumes "zoomLimitsEnabled rt" and "minimumZoom rt \<le> maximumZoom rt"
    and "zoomWithinLimits rt (cam w)"
  shows "zoomWithinLimits rt (cam (stateAfter (onMouseMove rt now captured event w)))"
  using assms
  by (auto simp add: onMouseMove_def stateAfter_def within_clampZoomLevel
      split: sum.splits dest: moveHandler_throw_state)

lemma within_onMouseWheel:
  "zoomLimitsEnabled rt \<Longrightarrow> minimumZoom rt \<le> maximumZoom rt \<Longrightarrow>
   zoomWithinLimits rt (onMouseWheel rt deltaY s)"
  using within_clampZoomLevel [of rt]
  by (simp add: onMouseWheel_def Let_def zoomWithinLimits_def)

lemma within_onTouchStart:
  "zoomWithinLimits rt (cam w) \<Longrightarrow> zoomWithinLimits rt (cam (onTouchStart now captured event w))"
  by (simp add: onTouchStart_def Let_def zoomWithinLimits_def zoomLevel_startHandler
      split: list.split)

lemma within_onTouchMove:
  assumes "zoomLimitsEnabled rt" and "minimumZoom rt \<le> maximumZoom rt"
    and "zoomWithinLimits rt (cam w)"
  shows "zoomWithinLimits rt (cam (stateAfter (onTouchMove rt now captured event w)))"
proof (cases "onTouchMove rt now captured event w")
  case (Inl thrown)
  obtain e w' where thrown: "thrown = (e, w')" by (cases thrown)
  with Inl have "cam w' = cam w"
    by (auto simp add: onTouchMove_def Let_def
        split: list.splits sum.splits if_splits
        dest: moveHandler_throw_state pinchMove_throw_state)
  with assms(3) Inl thrown show ?thesis by (simp add: stateAfter_def)
next
  case (Inr w')
  then obtain c where "cam w' = clampZoomLevel rt c"
    by (auto simp add: onTouchMove_def Let_def split: sum.splits)
  with assms(1,2) Inr show ?thesis by (simp add: stateAfter_def within_clampZoomLevel)
qed

lemma within_onTouchEnd:
  "zoomWithinLimits rt (cam w) \<Longrightarrow>
   zoomWithinLimits rt (cam (stateAfter (onTouchEnd now event w)))"
  by (simp add: onTouchEnd_def Let_def stateAfter_def zoomWithinLimits_def
      zoomLevel_stopHandler split: list.split)

lemma zoomLevel_bindKeys: "zoomLevel (bindKeys k s) = zoomLevel s"
  by (cases k) (simp_all add: centerOnMap_def)

lemma within_deserialize:
  "zoomLimitsEnabled rt \<Longrightarrow> minimumZoom rt \<le> maximumZoom rt \<Longrightarrow>
   zoomWithinLimits rt (deserialize rt None z c s)"
  by (simp add: deserialize_def Let_def within_clampZoomLevel)

lemma within_applyOp:
  assumes enabled: "zoomLimitsEnabled rt" and ordered: "minimumZoom rt \<le> maximumZoom rt"
    and before: "zoomWithinLimits rt (cam w)"
    and clamped: "\<not> writesZoomUnclamped rt operation"
  shows "zoomWithinLimits rt (cam (stateAfter (applyOp rt operation w)))"
proof (cases operation)
  case (Update dt)
  with enabled ordered show ?thesis by (simp add: stateAfter_def within_update)
next
  case Transform
  with enabled ordered before show ?thesis by (simp add: stateAfter_def within_transform)
next
  case (OnMouseDown now captured event)
  with before show ?thesis by (simp add: stateAfter_def within_onMouseDown)
next
  case (OnMouseMove now captured event)
  with enabled ordered before show ?thesis by (simp add: within_onMouseMove)
next
  case (OnMouseUp now event)
  with before show ?thesis by (simp add: stateAfter_def within_onMouseUp)
next
  case (OnMouseWheel deltaY)
  with enabled ordered show ?thesis by (simp add: stateAfter_def within_onMouseWheel)
next
  case (OnTouchStart now captured event)
  with before show ?thesis by (simp add: stateAfter_def within_onTouchStart)
next
  case (OnTouchMove now captured event)
  with enabled ordered before show ?thesis by (simp add: within_onTouchMove)
next
  case (OnTouchEnd now event)
  with before show ?thesis by (simp add: within_onTouchEnd)
next
  case (KeyBinding k)
  with before show ?thesis by (simp add: stateAfter_def zoomWithinLimits_def zoomLevel_bindKeys)
next
  case (DevKeydown key)
  with before clamped show ?thesis
    by (auto simp add: stateAfter_def zoomWithinLimits_def devKeydown_def)
next
  case (SetDesiredCenter c)
  with before show ?thesis by (simp add: stateAfter_def zoomWithinLimits_def setDesiredCenter_def)
next
  case (SetPan pan)
  with before show ?thesis by (simp add: stateAfter_def zoomWithinLimits_def setPan_def)
next
  case (AddScreenShake amount r1 r2)
  with before show ?thesis
    by (simp add: stateAfter_def zoomWithinLimits_def addScreenShake_def Let_def)
next
  case ClearAnimations
  with before show ?thesis by (simp add: stateAfter_def zoomWithinLimits_def clearAnimations_def)
next
  case CancelAllInteractions
  with before show ?thesis
    by (simp add: stateAfter_def zoomWithinLimits_def cancelAllInteractions_def)
next
  case CenterOnMap
  with before show ?thesis by (simp add: stateAfter_def zoomWithinLimits_def centerOnMap_def)
next
  case (Deserialize errorCode z c)
  with clamped have "errorCode = None" by (cases errorCode) simp_all
  with Deserialize enabled ordered show ?thesis
    by (simp add: stateAfter_def within_deserialize)
qed

lemma within_run:
  assumes enabled: "zoomLimitsEnabled rt" and ordered: "minimumZoom rt \<le> maximumZoom rt"
  shows "zoomWithinLimits rt (cam w) \<Longrightarrow>
         \<forall>operation \<in> set ops. \<not> writesZoomUnclamped rt operation \<Longrightarrow>
         zoomWithinLimits rt (cam (run rt ops w))"
proof (induction ops arbitrary: w)
  case Nil
  then show ?case by simp
next
  case (Cons operation rest)
  from Cons.prems have "zoomWithinLimits rt (cam (stateAfter (applyOp rt operation w)))"
    by (simp add: within_applyOp [OF enabled ordered])
  with Cons.IH Cons.prems(2) show ?case by simp
qed

text \<open>
  C1, as the code has it. With the zoom limits enabled and the platform's minimum not
  above its maximum, the zoom level lies within the limits in the camera the constructor
  makes, after \<^verbatim>\<open>update(dt)\<close> from any state and for any \<open>dt\<close>, and after every run of
  camera operations that starts within the limits, hence at every point of such a run.
  Two operations are excepted, since they write the zoom level and return without the
  clamp: the development build's key listener on \<^verbatim>\<open>l\<close>, and a \<^verbatim>\<open>deserialize\<close> whose
  base-class call reports an error.
\<close>

theorem zoomLevel_within_limits:
  assumes "zoomLimitsEnabled rt" and "minimumZoom rt \<le> maximumZoom rt"
  shows "zoomWithinLimits rt (newCamera rt) \<and>
         (\<forall>dt s. zoomWithinLimits rt (update rt dt s)) \<and>
         (\<forall>w ops. zoomWithinLimits rt (cam w) \<and>
                   (\<forall>operation \<in> set ops. \<not> writesZoomUnclamped rt operation)
                   \<longrightarrow> zoomWithinLimits rt (cam (run rt ops w)))"
  using assms by (simp add: within_newCamera within_update within_run)

theorem zoomLevel_within_limits_witness:
  "zoomLimitsEnabled exampleRoot \<and>
   minimumZoom exampleRoot \<le> maximumZoom exampleRoot \<and>
   zoomWithinLimits exampleRoot (cam exampleWorld) \<and>
   zoomWithinLimits exampleRoot (update exampleRoot 33 exampleBusyCamera) \<and>
   zoomWithinLimits exampleRoot
     (cam (run exampleRoot
             [OnMouseWheel (- 1), Update 33, DevKeydown ''l'',
              OnTouchEnd 5000 \<lparr>touches = [], changedTouches = []\<rparr>, Update 5]
             exampleWorld))"
proof -
  define ops where
    "ops = [OnMouseWheel (- 1), Update 33, DevKeydown ''l'',
            OnTouchEnd 5000 \<lparr>touches = [], changedTouches = []\<rparr>, Update 5]"
  have enabled: "zoomLimitsEnabled exampleRoot"
    by (simp add: zoomLimitsEnabled_def exampleRoot_def)
  have ordered: "minimumZoom exampleRoot \<le> maximumZoom exampleRoot"
    by (simp add: exampleRoot_def)
  have start: "zoomWithinLimits exampleRoot (cam exampleWorld)"
    by (simp add: zoomWithinLimits_def exampleWorld_def exampleCamera_def exampleRoot_def)
  have clamped: "\<forall>operation \<in> set ops. \<not> writesZoomUnclamped exampleRoot operation"
    by (simp add: ops_def exampleRoot_def)
  note all = zoomLevel_within_limits [OF enabled ordered]
  from all have "zoomWithinLimits exampleRoot (update exampleRoot 33 exampleBusyCamera)"
    by blast
  moreover from all start clamped
  have "zoomWithinLimits exampleRoot (cam (run exampleRoot ops exampleWorld))"
    by blast
  ultimately show ?thesis
    using enabled ordered start unfolding ops_def by blast
qed

text \<open>
  C1 as stated fails in a development build with the limits enabled: on the camera the
  constructor makes (zoom \<open>5/4\<close>, limits \<open>[1/2, 2]\<close>) the key \<^verbatim>\<open>l\<close> sets the zoom level
  to 3, and the listener returns with it above the maximum.
\<close>

theorem devKeydown_leaves_zoom_above_maximum:
  "zoomLimitsEnabled exampleDevRoot \<and>
   minimumZoom exampleDevRoot \<le> maximumZoom exampleDevRoot \<and>
   cam exampleWorld = newCamera exampleDevRoot \<and>
   zoomWithinLimits exampleDevRoot (cam exampleWorld) \<and>
   \<not> zoomWithinLimits exampleDevRoot
        (cam (run exampleDevRoot [DevKeydown ''l''] exampleWorld))"
  by (simp add: zoomLimitsEnabled_def zoomWithinLimits_def exampleDevRoot_def exampleRoot_def
      exampleWorld_def exampleCamera_def newCamera_def clampZoomLevel_def findInitialZoom_def
      clamp_def Let_def stateAfter_def devKeydown_def)

section \<open>The zoom animation\<close>

text \<open>
  What \<^verbatim>\<open>clampZoomLevel\<close> makes of a zoom value: the value clamped to the limits, or the
  value itself when a development build has switched the limits off.
\<close>

definition zoomTarget :: "gameRoot \<Rightarrow> real \<Rightarrow> real" where
  "zoomTarget rt v =
     (if G_IS_DEV rt \<and> disableZoomLimits rt then v
      else clamp v (minimumZoom rt) (maximumZoom rt))"

text \<open>
  What a run of updates keeps true once a zoom towards \<open>Z\<close> has been requested, with
  \<open>T\<close> the target of \<open>Z\<close>: while the animation is active its own target has the target
  \<open>T\<close>, and once it has ended the zoom level, clamped, is within \<open>1/10000\<close> of \<open>T\<close>.
\<close>

definition zoomAnimationInv :: "gameRoot \<Rightarrow> real \<Rightarrow> camera \<Rightarrow> bool" where
  "zoomAnimationInv rt T s =
     (case desiredZoom s of
        Some dz \<Rightarrow> zoomTarget rt dz = T
      | None \<Rightarrow> \<bar>zoomTarget rt (zoomLevel s) - T\<bar> \<le> 1/10000)"

text \<open>
  The distance left to an active animation's target is at most \<open>c\<close>, and the target is
  one the clamp does not move away from the zoom level: it is not 0 (a target of 0 fails
  the test \<^verbatim>\<open>if (this.desiredZoom)\<close> and is never clamped), or 0 is its own target.
\<close>

definition zoomAnimationBound :: "gameRoot \<Rightarrow> real \<Rightarrow> camera \<Rightarrow> bool" where
  "zoomAnimationBound rt c s =
     (case desiredZoom s of
        None \<Rightarrow> True
      | Some dz \<Rightarrow> (dz \<noteq> 0 \<or> zoomTarget rt 0 = 0) \<and> \<bar>zoomLevel s - dz\<bar> \<le> c)"

lemma clamp_lipschitz:
  "\<bar>clamp a lo hi - clamp b lo hi\<bar> \<le> \<bar>a - b\<bar>"
  by (simp add: clamp_def max_def min_def)

lemma clamp_idem:
  "clamp (clamp v lo hi) lo hi = clamp v lo hi"
  by (simp add: clamp_def max_def min_def)

lemma zoomTarget_lipschitz:
  "\<bar>zoomTarget rt a - zoomTarget rt b\<bar> \<le> \<bar>a - b\<bar>"
  by (simp add: zoomTarget_def clamp_lipschitz)

lemma zoomTarget_idem:
  "zoomTarget rt (zoomTarget rt v) = zoomTarget rt v"
  by (simp add: zoomTarget_def clamp_idem)

lemma zoomLevel_clampZoomLevel_target:
  "zoomLevel (clampZoomLevel rt s) = zoomTarget rt (zoomLevel s)"
  by (simp add: clampZoomLevel_def zoomTarget_def Let_def split: option.split)

lemma desiredZoom_clampZoomLevel:
  "desiredZoom (clampZoomLevel rt s) =
     (case desiredZoom s of
        None \<Rightarrow> None
      | Some dz \<Rightarrow> Some (if dz \<noteq> 0 then zoomTarget rt dz else dz))"
  by (simp add: clampZoomLevel_def zoomTarget_def Let_def split: option.split)

lemma zoom_fields_internalUpdatePanning:
  "zoomLevel (internalUpdatePanning rt dt s) = zoomLevel s \<and>
   desiredZoom (internalUpdatePanning rt dt s) = desiredZoom s"
  by (simp add: internalUpdatePanning_def Let_def)

lemma zoom_fields_internalUpdateCentering:
  "zoomLevel (internalUpdateCentering dt s) = zoomLevel s \<and>
   desiredZoom (internalUpdateCentering dt s) = desiredZoom s"
  by (simp add: internalUpdateCentering_def Let_def split: option.split)

lemma zoom_fields_internalUpdateShake:
  "zoomLevel (internalUpdateShake dt s) = zoomLevel s \<and>
   desiredZoom (internalUpdateShake dt s) = desiredZoom s"
  by (simp add: internalUpdateShake_def)

lemma zoom_fields_internalUpdateKeyboardForce:
  "zoomLevel (internalUpdateKeyboardForce rt dt s) = zoomLevel s \<and>
   desiredZoom (internalUpdateKeyboardForce rt dt s) = desiredZoom s"
  by (simp add: internalUpdateKeyboardForce_def Let_def)

lemma zooming_after_panning:
  "zoomLevel (internalUpdateZooming dt (internalUpdatePanning rt dt s))
     = zoomLevel (internalUpdateZooming dt s) \<and>
   desiredZoom (internalUpdateZooming dt (internalUpdatePanning rt dt s))
     = desiredZoom (internalUpdateZooming dt s)"
proof -
  have "zoomLevel (internalUpdatePanning rt dt s) = zoomLevel s"
    and "desiredZoom (internalUpdatePanning rt dt s) = desiredZoom s"
    and "currentlyPinching (internalUpdatePanning rt dt s) = currentlyPinching s"
    by (simp_all add: internalUpdatePanning_def Let_def)
  then show ?thesis
    by (simp add: internalUpdateZooming_def Let_def split: option.split)
qed

lemma zoom_fields_updateStep:
  "zoomLevel (updateStep rt s) = zoomLevel (internalUpdateZooming physicsStepSizeMs s) \<and>
   desiredZoom (updateStep rt s) = desiredZoom (internalUpdateZooming physicsStepSizeMs s)"
  by (simp only: updateStep_def Let_def zoom_fields_internalUpdateKeyboardForce
      zoom_fields_internalUpdateShake zoom_fields_internalUpdateCentering
      zooming_after_panning simp_thms)

lemma pinching_updateStep:
  "currentlyPinching (updateStep rt s) = currentlyPinching s"
proof -
  have "\<And>dt s. currentlyPinching (internalUpdatePanning rt dt s) = currentlyPinching s"
    by (simp add: internalUpdatePanning_def Let_def)
  moreover have "\<And>dt s. currentlyPinching (internalUpdateZooming dt s) = currentlyPinching s"
    by (simp add: internalUpdateZooming_def Let_def split: option.split)
  moreover have "\<And>dt s. currentlyPinching (internalUpdateCentering dt s) = currentlyPinching s"
    by (simp add: internalUpdateCentering_def Let_def split: option.split)
  moreover have "\<And>dt s. currentlyPinching (internalUpdateShake dt s) = currentlyPinching s"
    by (simp add: internalUpdateShake_def)
  moreover have "\<And>dt s. currentlyPinching (internalUpdateKeyboardForce rt dt s)
      = currentlyPinching s"
    by (simp add: internalUpdateKeyboardForce_def Let_def)
  ultimately show ?thesis
    by (simp add: updateStep_def Let_def)
qed

lemma zoomAnimationInv_cong:
  "zoomLevel s' = zoomLevel s \<Longrightarrow> desiredZoom s' = desiredZoom s \<Longrightarrow>
   zoomAnimationInv rt T s' = zoomAnimationInv rt T s"
  by (simp add: zoomAnimationInv_def split: option.split)

lemma zoomAnimationBound_cong:
  "zoomLevel s' = zoomLevel s \<Longrightarrow> desiredZoom s' = desiredZoom s \<Longrightarrow>
   zoomAnimationBound rt c s' = zoomAnimationBound rt c s"
  by (simp add: zoomAnimationBound_def split: option.split)

subsection \<open>Where a finished animation leaves the zoom level\<close>

lemma inv_internalUpdateZooming:
  assumes "zoomAnimationInv rt T s"
  shows "zoomAnimationInv rt T (internalUpdateZooming dt s)"
proof (cases "desiredZoom s")
  case None
  with assms show ?thesis
    by (simp add: internalUpdateZooming_def)
next
  case (Some dz)
  with assms have target: "zoomTarget rt dz = T"
    by (simp add: zoomAnimationInv_def)
  show ?thesis
  proof (cases "\<not> currentlyPinching s \<and> \<not> \<bar>zoomLevel s - dz\<bar> > 0.0001")
    case True
    then have close: "\<bar>zoomLevel s - dz\<bar> \<le> 1/10000" by simp
    have "\<bar>zoomTarget rt (zoomLevel s) - T\<bar> \<le> \<bar>zoomLevel s - dz\<bar>"
      using zoomTarget_lipschitz [of rt "zoomLevel s" dz] target by simp
    with close have "\<bar>zoomTarget rt (zoomLevel s) - T\<bar> \<le> 1/10000"
      by linarith
    with True Some show ?thesis
      by (simp add: internalUpdateZooming_def zoomAnimationInv_def Let_def)
  next
    case False
    with Some target show ?thesis
      by (auto simp add: internalUpdateZooming_def zoomAnimationInv_def Let_def)
  qed
qed

lemma inv_updateStep:
  "zoomAnimationInv rt T s \<Longrightarrow> zoomAnimationInv rt T (updateStep rt s)"
  using zoomAnimationInv_cong [OF conjunct1 [OF zoom_fields_updateStep]
                                  conjunct2 [OF zoom_fields_updateStep]]
  by (simp add: inv_internalUpdateZooming)

lemma inv_updateLoop:
  "zoomAnimationInv rt T s \<Longrightarrow> zoomAnimationInv rt T (updateLoop rt s)"
proof (induction rt s rule: updateLoop.induct)
  case (1 rt s)
  show ?case
  proof (cases "cameraUpdateTimeBucket s > physicsStepSizeMs")
    case True
    have "zoomAnimationInv rt T
            (s\<lparr>cameraUpdateTimeBucket := cameraUpdateTimeBucket s - physicsStepSizeMs\<rparr>)"
      using "1.prems" by (simp add: zoomAnimationInv_def split: option.splits)
    then have "zoomAnimationInv rt T
            (updateStep rt
               (s\<lparr>cameraUpdateTimeBucket := cameraUpdateTimeBucket s - physicsStepSizeMs\<rparr>))"
      by (rule inv_updateStep)
    with True "1.IH" show ?thesis by (subst updateLoop.simps) simp
  next
    case False
    with "1.prems" show ?thesis by (subst updateLoop.simps) simp
  qed
qed

lemma inv_clampZoomLevel:
  "zoomAnimationInv rt T s \<Longrightarrow> zoomAnimationInv rt T (clampZoomLevel rt s)"
  by (auto simp add: zoomAnimationInv_def zoomLevel_clampZoomLevel_target
      desiredZoom_clampZoomLevel zoomTarget_idem split: option.splits)

lemma inv_update:
  "zoomAnimationInv rt T s \<Longrightarrow> zoomAnimationInv rt T (update rt dt s)"
proof -
  assume "zoomAnimationInv rt T s"
  then have "zoomAnimationInv rt T
               (s\<lparr>cameraUpdateTimeBucket := cameraUpdateTimeBucket s + min dt 33\<rparr>)"
    by (simp add: zoomAnimationInv_def split: option.splits)
  then show ?thesis
    by (simp add: update_def Let_def inv_clampZoomLevel inv_updateLoop)
qed

lemma inv_updates:
  "zoomAnimationInv rt T s \<Longrightarrow> zoomAnimationInv rt T (updates rt dts s)"
  by (induction dts arbitrary: s) (simp_all add: inv_update)

lemma updates_ends_with_clamp:
  "dts \<noteq> [] \<Longrightarrow> \<exists>c. updates rt dts s = clampZoomLevel rt c"
proof (induction dts arbitrary: s)
  case Nil
  then show ?case by simp
next
  case (Cons dt rest)
  show ?case
  proof (cases rest)
    case Nil
    then show ?thesis by (auto simp add: update_def Let_def)
  next
    case (Cons dt' rest')
    with Cons.IH [of "update rt dt s"] show ?thesis by simp
  qed
qed

lemma zoom_animation_end:
  assumes request: "desiredZoom s = Some Z"
    and ended: "desiredZoom (updates rt dts s) = None"
  shows "\<bar>zoomLevel (updates rt dts s) - zoomTarget rt Z\<bar> \<le> 1/10000"
proof -
  from request have "zoomAnimationInv rt (zoomTarget rt Z) s"
    by (simp add: zoomAnimationInv_def)
  then have "zoomAnimationInv rt (zoomTarget rt Z) (updates rt dts s)"
    by (rule inv_updates)
  with ended have near:
    "\<bar>zoomTarget rt (zoomLevel (updates rt dts s)) - zoomTarget rt Z\<bar> \<le> 1/10000"
    by (simp add: zoomAnimationInv_def)
  from request ended have "dts \<noteq> []" by auto
  then obtain c where "updates rt dts s = clampZoomLevel rt c"
    using updates_ends_with_clamp by blast
  then have "zoomTarget rt (zoomLevel (updates rt dts s)) = zoomLevel (updates rt dts s)"
    by (simp add: zoomLevel_clampZoomLevel_target zoomTarget_idem)
  with near show ?thesis by simp
qed

subsection \<open>An animation ends\<close>

lemma bound_mono:
  "c \<le> c' \<Longrightarrow> zoomAnimationBound rt c s \<Longrightarrow> zoomAnimationBound rt c' s"
  by (auto simp add: zoomAnimationBound_def split: option.splits)

lemma blend_gap:
  fixes z dz c k :: real
  assumes k: "0 \<le> k" "k \<le> 94/100" and gap: "\<bar>z - dz\<bar> \<le> c"
  shows "\<bar>z * k + dz * (1 - k) - dz\<bar> \<le> 94/100 * c"
proof -
  have "z * k + dz * (1 - k) - dz = k * (z - dz)"
    by (simp add: algebra_simps)
  then have "\<bar>z * k + dz * (1 - k) - dz\<bar> = \<bar>k * (z - dz)\<bar>"
    by (simp only:)
  also have "\<dots> = k * \<bar>z - dz\<bar>"
    using k(1) by (simp only: abs_mult abs_of_nonneg)
  also have "\<dots> \<le> 94/100 * \<bar>z - dz\<bar>"
    using k(2) by (rule mult_right_mono) (rule abs_ge_zero)
  also have "\<dots> \<le> 94/100 * c"
    using gap by (rule mult_left_mono) simp
  finally show ?thesis .
qed

lemma bound_internalUpdateZooming:
  assumes idle: "\<not> currentlyPinching s" and bound: "zoomAnimationBound rt c s"
  shows "zoomAnimationBound rt (94/100 * c) (internalUpdateZooming dt s)"
proof (cases "desiredZoom s")
  case None
  then show ?thesis
    by (simp add: internalUpdateZooming_def zoomAnimationBound_def)
next
  case (Some dz)
  with bound have steady: "dz \<noteq> 0 \<or> zoomTarget rt 0 = 0"
    and gap: "\<bar>zoomLevel s - dz\<bar> \<le> c"
    by (simp_all add: zoomAnimationBound_def)
  have fast: "\<bar>zoomLevel s * (9/10) + dz * (1 - 9/10) - dz\<bar> \<le> 94/100 * c"
    using gap by (intro blend_gap) simp_all
  have slow: "\<bar>zoomLevel s * (94/100) + dz * (1 - 94/100) - dz\<bar> \<le> 94/100 * c"
    using gap by (intro blend_gap) simp_all
  show ?thesis
  proof (cases "\<bar>zoomLevel s - dz\<bar> > 0.0001")
    case False
    with idle Some show ?thesis
      by (simp add: internalUpdateZooming_def zoomAnimationBound_def Let_def)
  next
    case True
    show ?thesis
    proof (cases "zoomLevel s - dz > 0")
      case True
      with idle Some steady fast \<open>\<bar>zoomLevel s - dz\<bar> > 0.0001\<close> show ?thesis
        by (simp add: internalUpdateZooming_def zoomAnimationBound_def Let_def)
    next
      case False
      with idle Some steady slow \<open>\<bar>zoomLevel s - dz\<bar> > 0.0001\<close> show ?thesis
        by (simp add: internalUpdateZooming_def zoomAnimationBound_def Let_def)
    qed
  qed
qed

lemma bound_updateStep:
  assumes "\<not> currentlyPinching s" and "zoomAnimationBound rt c s"
  shows "zoomAnimationBound rt (94/100 * c) (updateStep rt s)"
proof -
  from assms
  have "zoomAnimationBound rt (94/100 * c) (internalUpdateZooming physicsStepSizeMs s)"
    by (rule bound_internalUpdateZooming)
  then show ?thesis
    by (simp only: zoomAnimationBound_cong [OF conjunct1 [OF zoom_fields_updateStep]
                                               conjunct2 [OF zoom_fields_updateStep]])
qed

lemma bound_updateLoop:
  "\<not> currentlyPinching s \<Longrightarrow> 0 \<le> c \<Longrightarrow> zoomAnimationBound rt c s \<Longrightarrow>
   zoomAnimationBound rt c (updateLoop rt s) \<and>
   (physicsStepSizeMs < cameraUpdateTimeBucket s \<longrightarrow>
      zoomAnimationBound rt (94/100 * c) (updateLoop rt s))"
proof (induction rt s arbitrary: c rule: updateLoop.induct)
  case (1 rt s)
  show ?case
  proof (cases "cameraUpdateTimeBucket s > physicsStepSizeMs")
    case True
    let ?s1 = "s\<lparr>cameraUpdateTimeBucket := cameraUpdateTimeBucket s - physicsStepSizeMs\<rparr>"
    have "zoomAnimationBound rt c ?s1"
      using "1.prems"(3) by (simp add: zoomAnimationBound_def split: option.splits)
    moreover have idle1: "\<not> currentlyPinching ?s1"
      using "1.prems"(1) by simp
    ultimately have stepped: "zoomAnimationBound rt (94/100 * c) (updateStep rt ?s1)"
      by (rule bound_updateStep [rotated])
    have idle2: "\<not> currentlyPinching (updateStep rt ?s1)"
      using idle1 by (simp add: pinching_updateStep)
    have small: "0 \<le> 94/100 * c" using "1.prems"(2) by simp
    from "1.IH" [OF True idle2 small stepped]
    have "zoomAnimationBound rt (94/100 * c) (updateLoop rt (updateStep rt ?s1))"
      by simp
    then have less: "zoomAnimationBound rt (94/100 * c) (updateLoop rt s)"
      using True by (subst updateLoop.simps) simp
    have "94/100 * c \<le> c" using "1.prems"(2) by simp
    from bound_mono [OF this less] less show ?thesis by simp
  next
    case False
    with "1.prems"(3) show ?thesis by (subst updateLoop.simps) simp
  qed
qed

lemma pinching_updateLoop:
  "currentlyPinching (updateLoop rt s) = currentlyPinching s"
proof (induction rt s rule: updateLoop.induct)
  case (1 rt s)
  show ?case
  proof (cases "cameraUpdateTimeBucket s > physicsStepSizeMs")
    case True
    with "1.IH" show ?thesis
      by (subst updateLoop.simps) (simp add: pinching_updateStep)
  next
    case False
    then show ?thesis by (subst updateLoop.simps) simp
  qed
qed

lemma pinching_clampZoomLevel:
  "currentlyPinching (clampZoomLevel rt s) = currentlyPinching s"
  by (simp add: clampZoomLevel_def Let_def split: option.split)

lemma pinching_update:
  "currentlyPinching (update rt dt s) = currentlyPinching s"
  by (simp add: update_def Let_def pinching_clampZoomLevel pinching_updateLoop)

lemma bucket_nonneg_updateLoop:
  "0 \<le> cameraUpdateTimeBucket s \<Longrightarrow> 0 \<le> cameraUpdateTimeBucket (updateLoop rt s)"
proof (induction rt s rule: updateLoop.induct)
  case (1 rt s)
  show ?case
  proof (cases "cameraUpdateTimeBucket s > physicsStepSizeMs")
    case True
    then have "0 \<le> cameraUpdateTimeBucket
        (updateStep rt
           (s\<lparr>cameraUpdateTimeBucket := cameraUpdateTimeBucket s - physicsStepSizeMs\<rparr>))"
      by (simp add: bucket_updateStep)
    with True "1.IH" show ?thesis by (subst updateLoop.simps) simp
  next
    case False
    with "1.prems" show ?thesis by (subst updateLoop.simps) simp
  qed
qed

lemma bucket_nonneg_update:
  "0 \<le> cameraUpdateTimeBucket s \<Longrightarrow> 0 \<le> dt \<Longrightarrow>
   0 \<le> cameraUpdateTimeBucket (update rt dt s)"
  by (simp add: update_def Let_def bucket_clampZoomLevel bucket_nonneg_updateLoop)

lemma bound_clampZoomLevel:
  assumes "zoomAnimationBound rt c s"
  shows "zoomAnimationBound rt c (clampZoomLevel rt s)"
proof (cases "desiredZoom s")
  case None
  then show ?thesis
    by (simp add: zoomAnimationBound_def desiredZoom_clampZoomLevel)
next
  case (Some dz)
  with assms have steady: "dz \<noteq> 0 \<or> zoomTarget rt 0 = 0"
    and gap: "\<bar>zoomLevel s - dz\<bar> \<le> c"
    by (simp_all add: zoomAnimationBound_def)
  show ?thesis
  proof (cases "dz = 0")
    case True
    with steady have zero: "zoomTarget rt 0 = 0" by simp
    have "\<bar>zoomTarget rt (zoomLevel s) - zoomTarget rt 0\<bar> \<le> \<bar>zoomLevel s - 0\<bar>"
      by (rule zoomTarget_lipschitz)
    with zero gap True have "\<bar>zoomTarget rt (zoomLevel s) - 0\<bar> \<le> c" by simp
    with Some True zero show ?thesis
      by (simp add: zoomAnimationBound_def desiredZoom_clampZoomLevel
          zoomLevel_clampZoomLevel_target)
  next
    case False
    have "\<bar>zoomTarget rt (zoomLevel s) - zoomTarget rt dz\<bar> \<le> \<bar>zoomLevel s - dz\<bar>"
      by (rule zoomTarget_lipschitz)
    with gap have near: "\<bar>zoomTarget rt (zoomLevel s) - zoomTarget rt dz\<bar> \<le> c" by linarith
    have "zoomTarget rt dz = 0 \<longrightarrow> zoomTarget rt 0 = 0"
      using zoomTarget_idem [of rt dz] by auto
    with Some False near show ?thesis
      by (auto simp add: zoomAnimationBound_def desiredZoom_clampZoomLevel
          zoomLevel_clampZoomLevel_target)
  qed
qed

lemma bound_update:
  assumes idle: "\<not> currentlyPinching s" and nonneg: "0 \<le> c"
    and bound: "zoomAnimationBound rt c s"
    and frame: "physicsStepSizeMs < cameraUpdateTimeBucket s + min dt 33"
  shows "zoomAnimationBound rt (94/100 * c) (update rt dt s)"
proof -
  let ?s1 = "s\<lparr>cameraUpdateTimeBucket := cameraUpdateTimeBucket s + min dt 33\<rparr>"
  have "zoomAnimationBound rt c ?s1"
    using bound by (simp add: zoomAnimationBound_def split: option.splits)
  moreover have "\<not> currentlyPinching ?s1" using idle by simp
  moreover have "physicsStepSizeMs < cameraUpdateTimeBucket ?s1" using frame by simp
  ultimately have "zoomAnimationBound rt (94/100 * c) (updateLoop rt ?s1)"
    using bound_updateLoop [of ?s1 c rt] nonneg by blast
  then show ?thesis
    by (simp add: update_def Let_def bound_clampZoomLevel)
qed

lemma bound_updates:
  "\<forall>dt\<in>set dts. physicsStepSizeMs < dt \<Longrightarrow>
   \<not> currentlyPinching s \<Longrightarrow> 0 \<le> cameraUpdateTimeBucket s \<Longrightarrow> 0 \<le> c \<Longrightarrow>
   zoomAnimationBound rt c s \<Longrightarrow>
   zoomAnimationBound rt ((94/100) ^ length dts * c) (updates rt dts s) \<and>
   \<not> currentlyPinching (updates rt dts s) \<and>
   0 \<le> cameraUpdateTimeBucket (updates rt dts s)"
proof (induction dts arbitrary: s c)
  case Nil
  then show ?case by simp
next
  case (Cons dt dts)
  from Cons.prems(1) have frame: "physicsStepSizeMs < dt"
    and frames: "\<forall>dt\<in>set dts. physicsStepSizeMs < dt"
    by simp_all
  have positive: "0 < dt" using frame by (simp add: physicsStepSizeMs_def)
  have "physicsStepSizeMs < min dt 33" using frame by (simp add: physicsStepSizeMs_def)
  with Cons.prems(3) have "physicsStepSizeMs < cameraUpdateTimeBucket s + min dt 33"
    by linarith
  with Cons.prems(2,4,5) have bound: "zoomAnimationBound rt (94/100 * c) (update rt dt s)"
    by (rule bound_update)
  have idle: "\<not> currentlyPinching (update rt dt s)"
    using Cons.prems(2) by (simp add: pinching_update)
  have bucket: "0 \<le> cameraUpdateTimeBucket (update rt dt s)"
    using Cons.prems(3) positive by (simp add: bucket_nonneg_update)
  have small: "0 \<le> 94/100 * c" using Cons.prems(4) by simp
  have eq: "(94/100 :: real) ^ length (dt # dts) * c = (94/100) ^ length dts * (94/100 * c)"
    by simp
  show ?case
    unfolding eq updates.simps
    by (rule Cons.IH [OF frames idle bucket small bound])
qed

lemma ends_internalUpdateZooming:
  "\<not> currentlyPinching s \<Longrightarrow> zoomAnimationBound rt (1/10000) s \<Longrightarrow>
   desiredZoom (internalUpdateZooming dt s) = None"
  by (auto simp add: internalUpdateZooming_def zoomAnimationBound_def Let_def
      split: option.splits)

lemma none_updateStep:
  "desiredZoom s = None \<Longrightarrow> desiredZoom (updateStep rt s) = None"
  by (simp add: zoom_fields_updateStep internalUpdateZooming_def)

lemma none_updateLoop:
  "desiredZoom s = None \<Longrightarrow> desiredZoom (updateLoop rt s) = None"
proof (induction rt s rule: updateLoop.induct)
  case (1 rt s)
  show ?case
  proof (cases "cameraUpdateTimeBucket s > physicsStepSizeMs")
    case True
    with "1.prems" have "desiredZoom (updateStep rt
        (s\<lparr>cameraUpdateTimeBucket := cameraUpdateTimeBucket s - physicsStepSizeMs\<rparr>)) = None"
      by (simp add: none_updateStep)
    with True "1.IH" show ?thesis by (subst updateLoop.simps) simp
  next
    case False
    with "1.prems" show ?thesis by (subst updateLoop.simps) simp
  qed
qed

lemma ends_update:
  assumes idle: "\<not> currentlyPinching s" and bound: "zoomAnimationBound rt (1/10000) s"
    and frame: "physicsStepSizeMs < cameraUpdateTimeBucket s + min dt 33"
  shows "desiredZoom (update rt dt s) = None"
proof -
  let ?s1 = "s\<lparr>cameraUpdateTimeBucket := cameraUpdateTimeBucket s + min dt 33\<rparr>"
  let ?s2 = "?s1\<lparr>cameraUpdateTimeBucket := cameraUpdateTimeBucket ?s1 - physicsStepSizeMs\<rparr>"
  have "zoomAnimationBound rt (1/10000) ?s2"
    using bound by (simp add: zoomAnimationBound_def split: option.splits)
  moreover have "\<not> currentlyPinching ?s2" using idle by simp
  ultimately have "desiredZoom (internalUpdateZooming physicsStepSizeMs ?s2) = None"
    by (rule ends_internalUpdateZooming [rotated])
  then have "desiredZoom (updateStep rt ?s2) = None"
    by (simp add: zoom_fields_updateStep)
  then have "desiredZoom (updateLoop rt (updateStep rt ?s2)) = None"
    by (rule none_updateLoop)
  moreover have "updateLoop rt ?s1 = updateLoop rt (updateStep rt ?s2)"
    using frame by (subst updateLoop.simps) simp
  ultimately have "desiredZoom (updateLoop rt ?s1) = None" by simp
  then show ?thesis
    by (simp add: update_def Let_def desiredZoom_clampZoomLevel)
qed

lemma updates_append:
  "updates rt (xs @ ys) s = updates rt ys (updates rt xs s)"
  by (induction xs arbitrary: s) simp_all

lemma zoom_animation_finishes:
  assumes target: "Z \<noteq> 0" and request: "desiredZoom s = Some Z"
    and idle: "\<not> currentlyPinching s" and bucket: "0 \<le> cameraUpdateTimeBucket s"
    and frames: "\<forall>dt\<in>set dts. physicsStepSizeMs < dt" and count: "length dts = Suc n"
    and enough: "(94/100) ^ n * \<bar>zoomLevel s - Z\<bar> \<le> 1/10000"
  shows "desiredZoom (updates rt dts s) = None"
proof -
  from count have "dts \<noteq> []" by auto
  then have split: "dts = butlast dts @ [last dts]" by simp
  let ?sn = "updates rt (butlast dts) s"
  have early: "\<forall>dt\<in>set (butlast dts). physicsStepSizeMs < dt"
    using frames by (auto dest: in_set_butlastD)
  have final: "physicsStepSizeMs < last dts"
    using frames \<open>dts \<noteq> []\<close> by simp
  from count have steps: "length (butlast dts) = n" by simp
  from target request have "zoomAnimationBound rt \<bar>zoomLevel s - Z\<bar> s"
    by (simp add: zoomAnimationBound_def)
  with bound_updates [OF early idle bucket, of "\<bar>zoomLevel s - Z\<bar>" rt] steps
  have bound: "zoomAnimationBound rt ((94/100) ^ n * \<bar>zoomLevel s - Z\<bar>) ?sn"
    and idle_n: "\<not> currentlyPinching ?sn"
    and bucket_n: "0 \<le> cameraUpdateTimeBucket ?sn"
    by simp_all
  from bound_mono [OF enough bound] have close: "zoomAnimationBound rt (1/10000) ?sn" .
  have "physicsStepSizeMs < min (last dts) 33"
    using final by (simp add: physicsStepSizeMs_def)
  with bucket_n have "physicsStepSizeMs < cameraUpdateTimeBucket ?sn + min (last dts) 33"
    by linarith
  with idle_n close have "desiredZoom (update rt (last dts) ?sn) = None"
    by (rule ends_update)
  then have "desiredZoom (updates rt (butlast dts @ [last dts]) s) = None"
    by (simp only: updates_append updates.simps)
  with split show ?thesis by simp
qed

lemma zoom_animation_finishes_eventually:
  assumes "Z \<noteq> 0" and "desiredZoom s = Some Z"
    and "\<not> currentlyPinching s" and "0 \<le> cameraUpdateTimeBucket s"
    and "physicsStepSizeMs < dt"
  shows "\<exists>n. desiredZoom (updates rt (replicate n dt) s) = None"
proof -
  have "\<exists>n. (94/100 :: real) ^ n * \<bar>zoomLevel s - Z\<bar> \<le> 1/10000"
  proof (cases "zoomLevel s = Z")
    case True
    then show ?thesis by simp
  next
    case False
    then have "0 < (1/10000) / \<bar>zoomLevel s - Z\<bar>" by simp
    then obtain n where "(94/100 :: real) ^ n < (1/10000) / \<bar>zoomLevel s - Z\<bar>"
      using real_arch_pow_inv [of "(1/10000) / \<bar>zoomLevel s - Z\<bar>" "94/100"] by auto
    with False have "(94/100 :: real) ^ n * \<bar>zoomLevel s - Z\<bar> < 1/10000"
      by (simp add: pos_less_divide_eq)
    then show ?thesis by (auto intro: less_imp_le)
  qed
  then obtain n where enough: "(94/100 :: real) ^ n * \<bar>zoomLevel s - Z\<bar> \<le> 1/10000" ..
  have "\<forall>d\<in>set (replicate (Suc n) dt). physicsStepSizeMs < d"
    using assms(5) by simp
  moreover have "length (replicate (Suc n) dt) = Suc n" by simp
  ultimately have "desiredZoom (updates rt (replicate (Suc n) dt) s) = None"
    using assms(1-4) enough by (intro zoom_animation_finishes [where n = n]) 
  then show ?thesis ..
qed

lemma internalUpdateZooming_step:
  assumes "\<not> currentlyPinching s" and "desiredZoom s = Some dz"
  shows "internalUpdateZooming dt s =
           (if dz + 1/10000 < zoomLevel s
            then s\<lparr>zoomLevel := zoomLevel s * (9/10) + dz * (1 - 9/10)\<rparr>
            else if zoomLevel s < dz - 1/10000
            then s\<lparr>zoomLevel := zoomLevel s * (94/100) + dz * (1 - 94/100)\<rparr>
            else s\<lparr>desiredZoom := None\<rparr>)"
  using assms by (auto simp add: internalUpdateZooming_def Let_def)

lemma zoom_gap_small_after_200:
  "(94/100 :: real) ^ 200 * \<bar>5/4 - 3\<bar> \<le> 1/10000"
proof -
  have ten: "(94/100 :: real) ^ 10 \<le> 54/100"
    by (simp add: power_divide)
  have "(94/100 :: real) ^ 200 = ((94/100) ^ 10) ^ 20"
    by (simp only: power_mult [symmetric]) simp
  also have "\<dots> \<le> (54/100) ^ 20"
    by (rule power_mono [OF ten]) simp
  also have "\<dots> \<le> 1/17500"
    by (simp add: power_divide)
  finally show ?thesis by simp
qed

lemma exampleZoomingCamera_ready:
  shows "desiredZoom exampleZoomingCamera = Some 3"
    and "zoomLevel exampleZoomingCamera = 5/4"
    and "\<not> currentlyPinching exampleZoomingCamera"
    and "0 \<le> cameraUpdateTimeBucket exampleZoomingCamera"
  by (simp_all add: exampleZoomingCamera_def exampleCamera_def)

lemma example_frames:
  shows "\<forall>dt\<in>set (replicate 201 (33 :: real)). physicsStepSizeMs < dt"
    and "length (replicate 201 (33 :: real)) = Suc 200"
  by (simp_all add: physicsStepSizeMs_def)

lemma exampleZoomingCamera_gap:
  "(94/100) ^ 200 * \<bar>zoomLevel exampleZoomingCamera - 3\<bar> \<le> 1/10000"
  unfolding exampleZoomingCamera_ready(2) by (rule zoom_gap_small_after_200)

lemma exampleZoomingCamera_finishes:
  "desiredZoom (updates rt (replicate 201 33) exampleZoomingCamera) = None"
  by (rule zoom_animation_finishes [OF _ exampleZoomingCamera_ready(1,3,4) example_frames
        exampleZoomingCamera_gap]) simp

text \<open>
  C8, as the code has it. When a zoom towards \<open>Z\<close> has been requested (\<^verbatim>\<open>desiredZoom\<close> is
  \<open>Z\<close>) and a sequence of \<^verbatim>\<open>update\<close> calls ends with \<^verbatim>\<open>desiredZoom\<close> null, the zoom level is
  within \<open>1/10000\<close> of \<open>Z\<close> clamped to the limits, or of \<open>Z\<close> itself in a development build
  that has switched the limits off. The animation does end: when \<open>Z\<close> is not 0, no pinch
  is under way and the time bucket is not negative, any \<open>n + 1\<close> frames that are each
  longer than one physics step end it as soon as \<open>0.94 ^ n\<close> times the distance to \<open>Z\<close> is
  at most \<open>1/10000\<close>, and some number of frames of any such length does. One step of an
  active animation while not pinching blends the zoom level towards the target, with
  factor \<open>0.9\<close> when the zoom level is above the target by more than \<open>1/10000\<close> (zooming
  out) and \<open>0.94\<close> when it is below by more than that (zooming in), and otherwise ends the
  animation by setting \<^verbatim>\<open>desiredZoom\<close> to null.
\<close>

theorem zoom_animation_converges:
  "(\<forall>Z dts s. desiredZoom s = Some Z \<and> desiredZoom (updates rt dts s) = None \<longrightarrow>
      \<bar>zoomLevel (updates rt dts s) -
         (if G_IS_DEV rt \<and> disableZoomLimits rt then Z
          else clamp Z (minimumZoom rt) (maximumZoom rt))\<bar> \<le> 1/10000) \<and>
   (\<forall>Z dts s n. Z \<noteq> 0 \<and> desiredZoom s = Some Z \<and> \<not> currentlyPinching s \<and>
      0 \<le> cameraUpdateTimeBucket s \<and> (\<forall>dt\<in>set dts. physicsStepSizeMs < dt) \<and>
      length dts = Suc n \<and> (94/100) ^ n * \<bar>zoomLevel s - Z\<bar> \<le> 1/10000 \<longrightarrow>
      desiredZoom (updates rt dts s) = None) \<and>
   (\<forall>Z dt s. Z \<noteq> 0 \<and> desiredZoom s = Some Z \<and> \<not> currentlyPinching s \<and>
      0 \<le> cameraUpdateTimeBucket s \<and> physicsStepSizeMs < dt \<longrightarrow>
      (\<exists>n. desiredZoom (updates rt (replicate n dt) s) = None)) \<and>
   (\<forall>dt s dz. \<not> currentlyPinching s \<and> desiredZoom s = Some dz \<longrightarrow>
      internalUpdateZooming dt s =
        (if dz + 1/10000 < zoomLevel s
         then s\<lparr>zoomLevel := zoomLevel s * (9/10) + dz * (1 - 9/10)\<rparr>
         else if zoomLevel s < dz - 1/10000
         then s\<lparr>zoomLevel := zoomLevel s * (94/100) + dz * (1 - 94/100)\<rparr>
         else s\<lparr>desiredZoom := None\<rparr>))"
proof (intro conjI allI impI)
  fix Z :: real and dts :: "real list" and s :: camera
  assume "desiredZoom s = Some Z \<and> desiredZoom (updates rt dts s) = None"
  then have "\<bar>zoomLevel (updates rt dts s) - zoomTarget rt Z\<bar> \<le> 1/10000"
    by (intro zoom_animation_end) simp_all
  then show "\<bar>zoomLevel (updates rt dts s) -
         (if G_IS_DEV rt \<and> disableZoomLimits rt then Z
          else clamp Z (minimumZoom rt) (maximumZoom rt))\<bar> \<le> 1/10000"
    by (simp only: zoomTarget_def)
next
  fix Z :: real and dts :: "real list" and s :: camera and n :: nat
  assume "Z \<noteq> 0 \<and> desiredZoom s = Some Z \<and> \<not> currentlyPinching s \<and>
      0 \<le> cameraUpdateTimeBucket s \<and> (\<forall>dt\<in>set dts. physicsStepSizeMs < dt) \<and>
      length dts = Suc n \<and> (94/100) ^ n * \<bar>zoomLevel s - Z\<bar> \<le> 1/10000"
  then show "desiredZoom (updates rt dts s) = None"
    by (intro zoom_animation_finishes [where n = n and Z = Z]) simp_all
next
  fix Z dt :: real and s :: camera
  assume "Z \<noteq> 0 \<and> desiredZoom s = Some Z \<and> \<not> currentlyPinching s \<and>
      0 \<le> cameraUpdateTimeBucket s \<and> physicsStepSizeMs < dt"
  then show "\<exists>n. desiredZoom (updates rt (replicate n dt) s) = None"
    by (intro zoom_animation_finishes_eventually [where Z = Z]) simp_all
next
  fix dt dz :: real and s :: camera
  assume "\<not> currentlyPinching s \<and> desiredZoom s = Some dz"
  then show "internalUpdateZooming dt s =
        (if dz + 1/10000 < zoomLevel s
         then s\<lparr>zoomLevel := zoomLevel s * (9/10) + dz * (1 - 9/10)\<rparr>
         else if zoomLevel s < dz - 1/10000
         then s\<lparr>zoomLevel := zoomLevel s * (94/100) + dz * (1 - 94/100)\<rparr>
         else s\<lparr>desiredZoom := None\<rparr>)"
    by (intro internalUpdateZooming_step) simp_all
qed

text \<open>Evaluating an update at a concrete state: the loop by its equation and the bucket,
  the zoom fields of a step by those of its zoom channel.\<close>

lemmas update_evaluation =
  update_def Let_def updateLoop.simps bucket_updateStep physicsStepSizeMs_def
  zoom_fields_updateStep internalUpdateZooming_def

lemma exampleZoomingCamera_first_frame:
  "zoomLevel (update exampleRoot 5 exampleZoomingCamera) = 5/4 * (94/100) + 3 * (1 - 94/100) \<and>
   desiredZoom (update exampleRoot 5 exampleZoomingCamera) = Some 2"
  by (simp add: update_evaluation zoomLevel_clampZoomLevel_target desiredZoom_clampZoomLevel
      zoomTarget_def clamp_def exampleZoomingCamera_def exampleCamera_def exampleRoot_def)

text \<open>
  The constructor's camera at zoom \<open>5/4\<close>, limits \<open>[1/2, 2]\<close>, asked to zoom to 3: a
  step blends the zoom level with factor \<open>0.94\<close> to \<open>1.355\<close>; a first frame of 5 ms runs
  one such step, and the clamp after the loop moves the target to 2; 201 frames of 33 ms
  end the animation with the zoom level within \<open>1/10000\<close> of 2. A camera at zoom \<open>0.52\<close>
  asked to zoom out to \<open>0.3\<close> blends with factor \<open>0.9\<close>, and a camera asked for the zoom
  level it has ends its animation.
\<close>

theorem zoom_animation_converges_witness:
  "desiredZoom exampleZoomingCamera = Some 3 \<and>
   zoomLevel exampleZoomingCamera = 5/4 \<and>
   \<not> currentlyPinching exampleZoomingCamera \<and>
   0 \<le> cameraUpdateTimeBucket exampleZoomingCamera \<and>
   physicsStepSizeMs < 33 \<and>
   (94/100 :: real) ^ 200 * \<bar>5/4 - 3\<bar> \<le> 1/10000 \<and>
   internalUpdateZooming physicsStepSizeMs exampleZoomingCamera
     = exampleZoomingCamera\<lparr>zoomLevel := 5/4 * (94/100) + 3 * (1 - 94/100)\<rparr> \<and>
   internalUpdateZooming physicsStepSizeMs exampleZoomCenterCamera
     = exampleZoomCenterCamera\<lparr>zoomLevel := 52/100 * (9/10) + 3/10 * (1 - 9/10)\<rparr> \<and>
   internalUpdateZooming physicsStepSizeMs (exampleCamera\<lparr>desiredZoom := Some (5/4)\<rparr>)
     = exampleCamera \<and>
   zoomLevel (update exampleRoot 5 exampleZoomingCamera) = 271/200 \<and>
   desiredZoom (update exampleRoot 5 exampleZoomingCamera) = Some 2 \<and>
   desiredZoom (updates exampleRoot (replicate 201 33) exampleZoomingCamera) = None \<and>
   (\<exists>n. desiredZoom (updates exampleRoot (replicate n 33) exampleZoomingCamera) = None) \<and>
   \<bar>zoomLevel (updates exampleRoot (replicate 201 33) exampleZoomingCamera) - 2\<bar> \<le> 1/10000"
proof -
  note claim = zoom_animation_converges [of exampleRoot]
  have frame_length: "physicsStepSizeMs < 33"
    by (simp add: physicsStepSizeMs_def)
  have ready: "(3 :: real) \<noteq> 0 \<and> desiredZoom exampleZoomingCamera = Some 3 \<and>
      \<not> currentlyPinching exampleZoomingCamera \<and>
      0 \<le> cameraUpdateTimeBucket exampleZoomingCamera \<and>
      (\<forall>dt\<in>set (replicate 201 (33 :: real)). physicsStepSizeMs < dt) \<and>
      length (replicate 201 (33 :: real)) = Suc 200 \<and>
      (94/100) ^ 200 * \<bar>zoomLevel exampleZoomingCamera - 3\<bar> \<le> 1/10000"
    by (intro conjI exampleZoomingCamera_ready example_frames exampleZoomingCamera_gap) simp
  from claim have "\<forall>Z dts s n. Z \<noteq> 0 \<and> desiredZoom s = Some Z \<and> \<not> currentlyPinching s \<and>
      0 \<le> cameraUpdateTimeBucket s \<and> (\<forall>dt\<in>set dts. physicsStepSizeMs < dt) \<and>
      length dts = Suc n \<and> (94/100) ^ n * \<bar>zoomLevel s - Z\<bar> \<le> 1/10000 \<longrightarrow>
      desiredZoom (updates exampleRoot dts s) = None"
    by (rule conjunct1 [OF conjunct2])
  with ready have ended:
    "desiredZoom (updates exampleRoot (replicate 201 33) exampleZoomingCamera) = None"
    by blast
  from claim have "\<forall>Z dt s. Z \<noteq> 0 \<and> desiredZoom s = Some Z \<and> \<not> currentlyPinching s \<and>
      0 \<le> cameraUpdateTimeBucket s \<and> physicsStepSizeMs < dt \<longrightarrow>
      (\<exists>n. desiredZoom (updates exampleRoot (replicate n dt) s) = None)"
    by (rule conjunct1 [OF conjunct2 [OF conjunct2]])
  with ready frame_length have eventually:
    "\<exists>n. desiredZoom (updates exampleRoot (replicate n 33) exampleZoomingCamera) = None"
    by blast
  from claim have "\<forall>Z dts s. desiredZoom s = Some Z \<and>
      desiredZoom (updates exampleRoot dts s) = None \<longrightarrow>
      \<bar>zoomLevel (updates exampleRoot dts s) -
         (if G_IS_DEV exampleRoot \<and> disableZoomLimits exampleRoot then Z
          else clamp Z (minimumZoom exampleRoot) (maximumZoom exampleRoot))\<bar> \<le> 1/10000"
    by (rule conjunct1)
  with ready ended have
    "\<bar>zoomLevel (updates exampleRoot (replicate 201 33) exampleZoomingCamera) -
         (if G_IS_DEV exampleRoot \<and> disableZoomLimits exampleRoot then 3
          else clamp 3 (minimumZoom exampleRoot) (maximumZoom exampleRoot))\<bar> \<le> 1/10000"
    by blast
  then have near:
    "\<bar>zoomLevel (updates exampleRoot (replicate 201 33) exampleZoomingCamera) - 2\<bar> \<le> 1/10000"
    by (simp add: exampleRoot_def clamp_def)
  from claim have "\<forall>dt s dz. \<not> currentlyPinching s \<and> desiredZoom s = Some dz \<longrightarrow>
      internalUpdateZooming dt s =
        (if dz + 1/10000 < zoomLevel s
         then s\<lparr>zoomLevel := zoomLevel s * (9/10) + dz * (1 - 9/10)\<rparr>
         else if zoomLevel s < dz - 1/10000
         then s\<lparr>zoomLevel := zoomLevel s * (94/100) + dz * (1 - 94/100)\<rparr>
         else s\<lparr>desiredZoom := None\<rparr>)"
    by (rule conjunct2 [OF conjunct2 [OF conjunct2]])
  then have blend: "internalUpdateZooming dt s =
        (if dz + 1/10000 < zoomLevel s
         then s\<lparr>zoomLevel := zoomLevel s * (9/10) + dz * (1 - 9/10)\<rparr>
         else if zoomLevel s < dz - 1/10000
         then s\<lparr>zoomLevel := zoomLevel s * (94/100) + dz * (1 - 94/100)\<rparr>
         else s\<lparr>desiredZoom := None\<rparr>)"
    if "\<not> currentlyPinching s" and "desiredZoom s = Some dz" for dt s dz
    using that by blast
  have zoom_in: "internalUpdateZooming physicsStepSizeMs exampleZoomingCamera
     = exampleZoomingCamera\<lparr>zoomLevel := 5/4 * (94/100) + 3 * (1 - 94/100)\<rparr>"
    by (subst blend [where dz = 3]) (simp_all add: exampleZoomingCamera_ready)
  have zoom_out: "internalUpdateZooming physicsStepSizeMs exampleZoomCenterCamera
     = exampleZoomCenterCamera\<lparr>zoomLevel := 52/100 * (9/10) + 3/10 * (1 - 9/10)\<rparr>"
    by (subst blend [where dz = "3/10"])
      (simp_all add: exampleZoomCenterCamera_def exampleCamera_def)
  have arrived:
    "internalUpdateZooming physicsStepSizeMs (exampleCamera\<lparr>desiredZoom := Some (5/4)\<rparr>)
       = exampleCamera"
    by (subst blend [where dz = "5/4"]) (simp_all add: exampleCamera_def)
  have frame: "zoomLevel (update exampleRoot 5 exampleZoomingCamera) = 271/200 \<and>
    desiredZoom (update exampleRoot 5 exampleZoomingCamera) = Some 2"
    using exampleZoomingCamera_first_frame by simp
  from ready frame_length zoom_gap_small_after_200 ended eventually near zoom_in zoom_out
    arrived frame
  show ?thesis
    by (simp only: exampleZoomingCamera_ready simp_thms)
qed

text \<open>
  The claim as worded asks for \<open>clamp(Z, min, max)\<close> whatever the build. In a development
  build with the zoom limits switched off, the same camera (zoom \<open>5/4\<close>, inside the
  limits \<open>[1/2, 2]\<close>) asked to zoom to 3 completes its animation after the same frames,
  and the zoom level is then not within \<open>1/10000\<close> of \<open>clamp(3, 1/2, 2) = 2\<close>.
\<close>

theorem zoom_animation_unclamped_without_limits:
  "desiredZoom exampleZoomingCamera = Some 3 \<and>
   zoomLevel exampleZoomingCamera = 5/4 \<and>
   minimumZoom exampleUnlimitedRoot = 1/2 \<and> maximumZoom exampleUnlimitedRoot = 2 \<and>
   desiredZoom (updates exampleUnlimitedRoot (replicate 201 33) exampleZoomingCamera) = None \<and>
   \<not> \<bar>zoomLevel (updates exampleUnlimitedRoot (replicate 201 33) exampleZoomingCamera)
        - clamp 3 (minimumZoom exampleUnlimitedRoot) (maximumZoom exampleUnlimitedRoot)\<bar>
        \<le> 1/10000"
proof -
  let ?end = "updates exampleUnlimitedRoot (replicate 201 33) exampleZoomingCamera"
  have ended: "desiredZoom ?end = None"
    by (rule exampleZoomingCamera_finishes)
  have "\<bar>zoomLevel ?end - zoomTarget exampleUnlimitedRoot 3\<bar> \<le> 1/10000"
    using exampleZoomingCamera_ready(1) ended by (rule zoom_animation_end)
  then have "\<bar>zoomLevel ?end - 3\<bar> \<le> 1/10000"
    by (simp add: zoomTarget_def exampleUnlimitedRoot_def)
  moreover have "clamp 3 (minimumZoom exampleUnlimitedRoot) (maximumZoom exampleUnlimitedRoot)
      = (2 :: real)"
    by (simp add: clamp_def exampleUnlimitedRoot_def exampleRoot_def)
  ultimately have "\<not> \<bar>zoomLevel ?end
        - clamp 3 (minimumZoom exampleUnlimitedRoot) (maximumZoom exampleUnlimitedRoot)\<bar>
        \<le> 1/10000"
    by linarith
  with ended exampleZoomingCamera_ready show ?thesis
    by (simp add: exampleUnlimitedRoot_def exampleRoot_def)
qed

subsection \<open>A target of 0\<close>

lemma zero_target_internalUpdateZooming:
  assumes "desiredZoom s = Some 0" and "1/10000 < zoomLevel s"
  shows "desiredZoom (internalUpdateZooming dt s) = Some 0 \<and>
         zoomLevel s * (9/10) \<le> zoomLevel (internalUpdateZooming dt s)"
  using assms by (simp add: internalUpdateZooming_def Let_def)

lemma zero_target_updateLoop:
  "desiredZoom s = Some 0 \<Longrightarrow> 0 < zoomLevel s \<Longrightarrow>
   1/10000 < zoomLevel s * (9/10) ^ nat \<lceil>cameraUpdateTimeBucket s / physicsStepSizeMs\<rceil> \<Longrightarrow>
   desiredZoom (updateLoop rt s) = Some 0"
proof (induction rt s rule: updateLoop.induct)
  case (1 rt s)
  let ?k = "nat \<lceil>cameraUpdateTimeBucket s / physicsStepSizeMs\<rceil>"
  show ?case
  proof (cases "cameraUpdateTimeBucket s > physicsStepSizeMs")
    case False
    with "1.prems"(1) show ?thesis by (subst updateLoop.simps) simp
  next
    case True
    let ?s' = "s\<lparr>cameraUpdateTimeBucket := cameraUpdateTimeBucket s - physicsStepSizeMs\<rparr>"
    let ?c = "updateStep rt ?s'"
    have pos: "0 < physicsStepSizeMs" by (simp add: physicsStepSizeMs_def)
    have "(cameraUpdateTimeBucket s - physicsStepSizeMs) / physicsStepSizeMs
            = cameraUpdateTimeBucket s / physicsStepSizeMs - 1"
      using pos by (simp add: diff_divide_distrib)
    moreover have "1 < cameraUpdateTimeBucket s / physicsStepSizeMs"
      using True pos by simp
    ultimately have count:
      "?k = Suc (nat \<lceil>(cameraUpdateTimeBucket s - physicsStepSizeMs) / physicsStepSizeMs\<rceil>)"
      by simp linarith
    have "(9/10 :: real) ^ ?k \<le> 1"
      by (rule power_le_one) simp_all
    with "1.prems"(2) have "zoomLevel s * (9/10) ^ ?k \<le> zoomLevel s * 1"
      by (intro mult_left_mono) simp_all
    with "1.prems"(3) have far: "1/10000 < zoomLevel ?s'" by simp
    have request: "desiredZoom ?s' = Some 0" using "1.prems"(1) by simp
    from zero_target_internalUpdateZooming [OF request far, of physicsStepSizeMs]
    have still: "desiredZoom ?c = Some 0" and step: "zoomLevel s * (9/10) \<le> zoomLevel ?c"
      by (simp_all add: zoom_fields_updateStep)
    from step "1.prems"(2) have positive: "0 < zoomLevel ?c" by linarith
    have "zoomLevel s * (9/10) ^ ?k
            = (zoomLevel s * (9/10)) *
              (9/10) ^ nat \<lceil>(cameraUpdateTimeBucket s - physicsStepSizeMs) / physicsStepSizeMs\<rceil>"
      by (subst count) simp
    also have "\<dots> \<le> zoomLevel ?c *
              (9/10) ^ nat \<lceil>(cameraUpdateTimeBucket s - physicsStepSizeMs) / physicsStepSizeMs\<rceil>"
      using step by (intro mult_right_mono) simp_all
    finally have "1/10000 < zoomLevel ?c *
              (9/10) ^ nat \<lceil>cameraUpdateTimeBucket ?c / physicsStepSizeMs\<rceil>"
      using "1.prems"(3) by (simp add: bucket_updateStep)
    with "1.IH" [OF True still positive] have "desiredZoom (updateLoop rt ?c) = Some 0" .
    with True show ?thesis by (subst updateLoop.simps) simp
  qed
qed

lemma zero_target_update:
  assumes enabled: "\<not> (G_IS_DEV rt \<and> disableZoomLimits rt)"
    and low: "1/10000 < minimumZoom rt * (9/10) ^ 9"
    and request: "desiredZoom s = Some 0"
    and level: "minimumZoom rt \<le> zoomLevel s"
    and bucket: "cameraUpdateTimeBucket s \<le> physicsStepSizeMs"
  shows "desiredZoom (update rt dt s) = Some 0 \<and>
         minimumZoom rt \<le> zoomLevel (update rt dt s) \<and>
         cameraUpdateTimeBucket (update rt dt s) \<le> physicsStepSizeMs"
proof -
  let ?s1 = "s\<lparr>cameraUpdateTimeBucket := cameraUpdateTimeBucket s + min dt 33\<rparr>"
  let ?k = "nat \<lceil>cameraUpdateTimeBucket ?s1 / physicsStepSizeMs\<rceil>"
  have least: "0 < minimumZoom rt"
  proof (rule ccontr)
    assume "\<not> 0 < minimumZoom rt"
    then have "minimumZoom rt * (9/10) ^ 9 \<le> 0"
      by (simp add: mult_le_0_iff)
    with low show False by simp
  qed
  with level have positive: "0 < zoomLevel ?s1" by simp
  have "cameraUpdateTimeBucket ?s1 \<le> physicsStepSizeMs + 33"
    using bucket by simp
  then have "cameraUpdateTimeBucket ?s1 / physicsStepSizeMs \<le> 9"
    by (simp add: physicsStepSizeMs_def)
  then have "\<lceil>cameraUpdateTimeBucket ?s1 / physicsStepSizeMs\<rceil> \<le> 9"
    by (simp add: ceiling_le_iff)
  then have "?k \<le> 9" by simp
  then have "(9/10 :: real) ^ 9 \<le> (9/10) ^ ?k"
    by (intro power_decreasing) simp_all
  then have "minimumZoom rt * (9/10) ^ 9 \<le> minimumZoom rt * (9/10) ^ ?k"
    using least by (intro mult_left_mono) simp_all
  also have "\<dots> \<le> zoomLevel ?s1 * (9/10) ^ ?k"
    using level by (intro mult_right_mono) simp_all
  finally have "1/10000 < zoomLevel ?s1 * (9/10) ^ ?k"
    using low by linarith
  moreover have "desiredZoom ?s1 = Some 0" using request by simp
  ultimately have loop: "desiredZoom (updateLoop rt ?s1) = Some 0"
    using positive by (intro zero_target_updateLoop)
  have "minimumZoom rt \<le> clamp v (minimumZoom rt) (maximumZoom rt)" for v
    by (simp add: clamp_def)
  with enabled have "minimumZoom rt \<le> zoomTarget rt v" for v
    by (auto simp add: zoomTarget_def)
  with loop show ?thesis
    by (simp add: update_def Let_def desiredZoom_clampZoomLevel
        zoomLevel_clampZoomLevel_target bucket_clampZoomLevel bucket_updateLoop_le)
qed

text \<open>
  With the limits enabled and a minimum zoom above about \<open>0.00026\<close>, an animation
  towards 0 never ends: the steps of one frame cannot bring the zoom level within
  \<open>1/10000\<close> of 0, and the clamp after the loop puts the zoom level back to the minimum
  and leaves the target, which fails the test \<^verbatim>\<open>if (this.desiredZoom)\<close>, as it is.
\<close>

lemma zoom_animation_to_zero_never_ends:
  "\<not> (G_IS_DEV rt \<and> disableZoomLimits rt) \<Longrightarrow> 1/10000 < minimumZoom rt * (9/10) ^ 9 \<Longrightarrow>
   desiredZoom s = Some 0 \<Longrightarrow> minimumZoom rt \<le> zoomLevel s \<Longrightarrow>
   cameraUpdateTimeBucket s \<le> physicsStepSizeMs \<Longrightarrow>
   desiredZoom (updates rt dts s) = Some 0"
proof (induction dts arbitrary: s)
  case Nil
  then show ?case by simp
next
  case (Cons dt dts)
  from zero_target_update [OF Cons.prems, of dt]
  have "desiredZoom (update rt dt s) = Some 0"
    and "minimumZoom rt \<le> zoomLevel (update rt dt s)"
    and "cameraUpdateTimeBucket (update rt dt s) \<le> physicsStepSizeMs"
    by simp_all
  with Cons.IH [OF Cons.prems(1,2)] show ?case by simp
qed

lemma zoom_animation_to_zero_example:
  "desiredZoom (updates exampleRoot dts (exampleCamera\<lparr>desiredZoom := Some 0\<rparr>)) = Some 0"
  by (rule zoom_animation_to_zero_never_ends)
    (simp_all add: exampleRoot_def exampleCamera_def physicsStepSizeMs_def power_divide)

section \<open>A pinch move with two identical touch points\<close>

text \<open>The arithmetic of the extended numbers on finite arguments.\<close>

lemma jsSub_finite: "jsSub (Num a) (Num b) = Num (a - b)"
  by (simp add: jsSub_def)

lemma jsMul_finite: "jsMul (Num a) (Num b) = Num (a * b)"
  by (simp add: jsMul_def)

lemma jsDiv_finite:
  "jsDiv (Num a) (Num b) =
     (if b \<noteq> 0 then Num (a / b) else if a = 0 then NaN else signedInfinity (a < 0))"
  by (simp add: jsDiv_def)

lemma Math_max_finite: "Math_max (Num a) (Num b) = Num (max a b)"
  by (simp add: Math_max_def max_def)

lemma Math_min_finite: "Math_min (Num a) (Num b) = Num (min a b)"
  by (simp add: Math_min_def min_def)

lemma clampJS_finite:
  "clampJS (Num v) (Num lo) (Num hi) = Num (clamp v lo hi)"
  by (simp add: clampJS_def Math_max_def Math_min_def clamp_def max_def min_def)

lemma distanceJS_finite:
  "distanceJS (toJS a) (toJS b) = Num (distance a b)"
  by (simp add: distanceJS_def toJS_def jsSub_def Math_hypot_def distance_def length_vec_def
      sub_def)

lemma distanceJS_components:
  "distanceJS (JsVector (Num a) (Num b)) (JsVector (Num c) (Num d))
     = Num (distance (Vector a b) (Vector c d))"
  using distanceJS_finite [of "Vector a b" "Vector c d"] by (simp add: toJS_def)





lemma pinchDifferenceJS_finite:
  "pinchDifferenceJS lastPos newPinchPositions =
     Num (distance (fst newPinchPositions) (snd newPinchPositions)
          / max (1/1000) (distance (fst lastPos) (snd lastPos)))"
proof -
  have "max (1/1000) (distance (fst lastPos) (snd lastPos)) \<noteq> 0"
    by (simp add: max_def)
  then show ?thesis
    by (simp add: pinchDifferenceJS_def Let_def distanceJS_finite Math_max_finite jsDiv_finite)
qed


lemma zoomLevelJS_pinchMoveJS:
  assumes "lastPinchPositionsJS s = Some lastPos"
  shows "\<exists>s'. pinchMoveJS rt touch1 touch2 s = Inr s' \<and>
           zoomLevelJS s' =
             jsMul (zoomLevelJS s)
               (pinchDifferenceJS lastPos
                  (Vector (clientX touch1) (clientY touch1),
                   Vector (clientX touch2) (clientY touch2))) \<and>
           lastPinchPositionsJS s' =
             Some (Vector (clientX touch1) (clientY touch1),
                   Vector (clientX touch2) (clientY touch2))"
  using assms
  by (simp add: pinchMoveJS_def pinchDifferenceJS_def Let_def split: option.split)


lemma pinchMoveJS_zoom_finite:
  assumes "zoomLevelJS s = Num z" and "lastPinchPositionsJS s = Some lastPos"
  shows "\<exists>s' r. pinchMoveJS rt touch1 touch2 s = Inr s' \<and> zoomLevelJS s' = Num r"
  using zoomLevelJS_pinchMoveJS [OF assms(2), of rt touch1 touch2] assms(1)
  by (auto simp add: pinchDifferenceJS_finite jsMul_finite)







section \<open>The two embeddings of the pinch handler agree\<close>

text \<open>
  Away from the degenerate inputs (a zoom level of 0, or two touch points at the same
  place) no division by zero occurs, and the handler over the extended numbers computes
  what the handler over the reals computes.\<close>

lemma clampZoomLevelJS_agrees:
  "clampZoomLevelJS rt (toPinchCamera s) = toPinchCamera (clampZoomLevel rt s)"
  by (simp add: clampZoomLevelJS_def clampZoomLevel_def toPinchCamera_def Let_def
      clampJS_finite split: option.split)

lemma pinchMoveJS_agrees:
  assumes zoom: "zoomLevel s \<noteq> 0"
    and apart: "clientX touch1 \<noteq> clientX touch2 \<or> clientY touch1 \<noteq> clientY touch2"
  shows "pinchMoveJS rt touch1 touch2 (toPinchCamera s) =
           (case pinchMove rt touch1 touch2 s of
              Inl (e, c) \<Rightarrow> Inl (e, toPinchCamera c)
            | Inr c \<Rightarrow> Inr (toPinchCamera c))"
proof (cases "lastPinchPositions s")
  case None
  then show ?thesis
    by (simp add: pinchMoveJS_def pinchMove_def toPinchCamera_def Let_def)
next
  case (Some lastPos)
  let ?new = "distance (Vector (clientX touch1) (clientY touch1))
                 (Vector (clientX touch2) (clientY touch2))"
  let ?last = "distance (fst lastPos) (snd lastPos)"
  have new_nz: "?new \<noteq> 0"
    using apart
    by (auto simp add: distance_def length_vec_def sub_def
        add_nonneg_eq_0_iff)
  have den: "max (1/1000) ?last \<noteq> 0" by (simp add: max_def)
  show ?thesis
  proof (cases "desiredZoom s")
    case None
    with Some zoom new_nz den show ?thesis
      by (simp add: pinchMoveJS_def pinchMove_def toPinchCamera_def Let_def
          distanceJS_components Math_max_finite jsDiv_finite
          jsMul_finite jsSub_finite
          centerPointJS_def centerPoint_def subJS_def sub_def addJS_def add_def
          multiplyScalarJS_def multiplyScalar_def divideScalarJS_def divideScalar_def
          toJS_def)
  next
    case (Some dz)
    with \<open>lastPinchPositions s = Some lastPos\<close> zoom new_nz den show ?thesis
      by (simp add: pinchMoveJS_def pinchMove_def toPinchCamera_def Let_def
          distanceJS_components Math_max_finite jsDiv_finite
          jsMul_finite jsSub_finite
          centerPointJS_def centerPoint_def subJS_def sub_def addJS_def add_def
          multiplyScalarJS_def multiplyScalar_def divideScalarJS_def divideScalar_def
          toJS_def)
  qed
qed

lemma onTouchMoveJS_agrees:
  assumes "zoomLevel s \<noteq> 0"
    and "clientX touch1 \<noteq> clientX touch2 \<or> clientY touch1 \<noteq> clientY touch2"
  shows "onTouchMoveJS rt touch1 touch2 (toPinchCamera s) =
           (case (if currentlyPinching s then pinchMove rt touch1 touch2 s else Inr s) of
              Inl (e, c) \<Rightarrow> Inl (e, toPinchCamera c)
            | Inr c \<Rightarrow> Inr (toPinchCamera (clampZoomLevel rt c)))"
proof (cases "currentlyPinching s")
  case True
  then have "currentlyPinchingJS (toPinchCamera s)"
    by (simp add: toPinchCamera_def)
  with True pinchMoveJS_agrees [OF assms, of rt] show ?thesis
    by (simp add: onTouchMoveJS_def clampZoomLevelJS_agrees split: sum.split)
next
  case False
  then have "\<not> currentlyPinchingJS (toPinchCamera s)"
    by (simp add: toPinchCamera_def)
  with False show ?thesis
    by (simp add: onTouchMoveJS_def clampZoomLevelJS_agrees)
qed

end
